theory Spec2Isabelle
  imports Complex_Main
begin

section \<open>Data model of the Places Insights tool\<close>

text \<open>
  The development follows \<^verbatim>\<open>src/mastra/tools/google-places-insights-tool.ts\<close>.
  Objects validated by the zod schemas become records, optional properties become
  \<open>option\<close> values (\<open>None\<close> is an absent property), string enums become datatypes.
  The two enums of the source both have a member \<^verbatim>\<open>'CUSTOM'\<close>; the one of the industry
  enum is written \<open>INDUSTRY_CUSTOM\<close> here.
\<close>

datatype industry =
    RETAIL_GENERAL | FOOD_SERVICE | PROFESSIONAL_SERVICES | HEALTH_WELLNESS | HOSPITALITY
  | FINANCIAL_SERVICES | EDUCATION | AUTOMOTIVE | HOME_SERVICES | SOLO_PROFESSIONAL
  | TECH_SERVICES | INDUSTRY_CUSTOM

datatype analysisType =
    MARKET_DENSITY | COMPETITOR_ANALYSIS | LOCATION_SUITABILITY | PRICE_ANALYSIS | CUSTOM

text \<open>\<^verbatim>\<open>typeFilterSchema\<close>: four optional lists of type tags.\<close>

record TypeFilter =
  includedTypes :: "string list option"
  excludedTypes :: "string list option"
  includedPrimaryTypes :: "string list option"
  excludedPrimaryTypes :: "string list option"

text \<open>
  \<^verbatim>\<open>locationFilterSchema\<close>. The property \<^verbatim>\<open>circle.place\<close> is the field \<open>circle_place\<close>
  (the name \<open>place\<close> is kept for the place insights of the response).
\<close>

record Circle =
  latLng :: "(real \<times> real) option"
  circle_place :: "string option"
  radius :: real

record LocationFilter =
  circle :: "Circle option"
  region :: "string option"
  customArea :: "(real \<times> real) list option"

record QueryFilter =
  locationFilter :: LocationFilter
  typeFilter :: TypeFilter
  operatingStatus :: "string list"
  priceLevels :: "string list option"
  ratingFilter :: "(real option \<times> real option) option"

record BusinessContext =
  industry :: "industry option"
  targetCustomers :: "string option"
  businessModel :: "string option"
  strategicGoals :: "string list option"
  budgetRange :: "string option"

text \<open>The \<^verbatim>\<open>context\<close> argument of \<^verbatim>\<open>execute\<close>; its property \<^verbatim>\<open>filter\<close> is \<open>filter'\<close>.\<close>

record ToolInput =
  insights :: "string list"
  filter' :: QueryFilter
  analysisType :: "analysisType option"
  businessContext :: "BusinessContext option"

section \<open>Industry presets and the preset merge\<close>

text \<open>
  The table \<^verbatim>\<open>BUSINESS_INTELLIGENCE_PRESETS\<close>; a key that a preset object does not have
  is \<open>None\<close>. The table has no entry for \<^verbatim>\<open>'CUSTOM'\<close>.
\<close>

fun BUSINESS_INTELLIGENCE_PRESETS :: "industry \<Rightarrow> TypeFilter option" where
  "BUSINESS_INTELLIGENCE_PRESETS RETAIL_GENERAL = Some \<lparr>
     includedTypes = Some [''store'', ''shopping_mall'', ''supermarket'', ''department_store'',
       ''convenience_store''],
     excludedTypes = Some [''gas_station'', ''car_dealer''],
     includedPrimaryTypes = None,
     excludedPrimaryTypes = None \<rparr>"
| "BUSINESS_INTELLIGENCE_PRESETS FOOD_SERVICE = Some \<lparr>
     includedTypes = Some [''cafe'', ''fast_food_restaurant'', ''meal_takeaway'', ''bar''],
     excludedTypes = Some [''lodging'', ''gas_station''],
     includedPrimaryTypes = Some [''restaurant''],
     excludedPrimaryTypes = None \<rparr>"
| "BUSINESS_INTELLIGENCE_PRESETS PROFESSIONAL_SERVICES = Some \<lparr>
     includedTypes = Some [''consultant'', ''real_estate_agency'', ''insurance_agency''],
     excludedTypes = None,
     includedPrimaryTypes = Some [''lawyer'', ''accounting'', ''dentist'', ''doctor''],
     excludedPrimaryTypes = None \<rparr>"
| "BUSINESS_INTELLIGENCE_PRESETS HEALTH_WELLNESS = Some \<lparr>
     includedTypes = None,
     excludedTypes = Some [''lodging'', ''gas_station'', ''car_dealer''],
     includedPrimaryTypes = Some [''gym'', ''spa'', ''beauty_salon'', ''physiotherapist'',
       ''hospital'', ''pharmacy''],
     excludedPrimaryTypes = None \<rparr>"
| "BUSINESS_INTELLIGENCE_PRESETS HOSPITALITY = Some \<lparr>
     includedTypes = Some [''bar'', ''night_club'', ''restaurant''],
     excludedTypes = Some [''gas_station'', ''car_dealer''],
     includedPrimaryTypes = Some [''hotel'', ''lodging''],
     excludedPrimaryTypes = None \<rparr>"
| "BUSINESS_INTELLIGENCE_PRESETS FINANCIAL_SERVICES = Some \<lparr>
     includedTypes = Some [''atm'', ''insurance_agency'', ''accounting''],
     excludedTypes = Some [''gas_station'', ''restaurant'', ''lodging''],
     includedPrimaryTypes = Some [''bank''],
     excludedPrimaryTypes = None \<rparr>"
| "BUSINESS_INTELLIGENCE_PRESETS EDUCATION = Some \<lparr>
     includedTypes = Some [''library'', ''book_store''],
     excludedTypes = Some [''gas_station'', ''restaurant'', ''lodging''],
     includedPrimaryTypes = Some [''school'', ''university''],
     excludedPrimaryTypes = None \<rparr>"
| "BUSINESS_INTELLIGENCE_PRESETS AUTOMOTIVE = Some \<lparr>
     includedTypes = None,
     excludedTypes = Some [''restaurant'', ''lodging''],
     includedPrimaryTypes = Some [''car_dealer'', ''car_rental'', ''car_repair'', ''gas_station''],
     excludedPrimaryTypes = None \<rparr>"
| "BUSINESS_INTELLIGENCE_PRESETS HOME_SERVICES = Some \<lparr>
     includedTypes = Some [''home_goods_store'', ''hardware_store''],
     excludedTypes = Some [''restaurant'', ''lodging'', ''gas_station''],
     includedPrimaryTypes = Some [''plumber'', ''electrician'', ''contractor''],
     excludedPrimaryTypes = None \<rparr>"
| "BUSINESS_INTELLIGENCE_PRESETS SOLO_PROFESSIONAL = Some \<lparr>
     includedTypes = Some [''consultant'', ''lawyer'', ''dentist'', ''doctor'', ''therapist'',
       ''coach''],
     excludedTypes = Some [''restaurant'', ''lodging'', ''gas_station'', ''car_dealer''],
     includedPrimaryTypes = None,
     excludedPrimaryTypes = None \<rparr>"
| "BUSINESS_INTELLIGENCE_PRESETS TECH_SERVICES = Some \<lparr>
     includedTypes = Some [''computer_store'', ''electronics_store'', ''internet_cafe''],
     excludedTypes = Some [''restaurant'', ''lodging'', ''gas_station''],
     includedPrimaryTypes = Some [''software_company''],
     excludedPrimaryTypes = None \<rparr>"
| "BUSINESS_INTELLIGENCE_PRESETS INDUSTRY_CUSTOM = None"

text \<open>
  One property of the object spread \<^verbatim>\<open>{ ...a, ...b }\<close>: the value of \<open>b\<close> when \<open>b\<close> has
  the key, the value of \<open>a\<close> otherwise.
\<close>

definition spread_key :: "'a option \<Rightarrow> 'a option \<Rightarrow> 'a option" where
  "spread_key a b = (case b of Some v \<Rightarrow> Some v | None \<Rightarrow> a)"

text \<open>\<^verbatim>\<open>{ ...existingTypeFilter, ...preset }\<close> on the four keys of a type filter.\<close>

definition spread_TypeFilter :: "TypeFilter \<Rightarrow> TypeFilter \<Rightarrow> TypeFilter" where
  "spread_TypeFilter existingTypeFilter preset = \<lparr>
     includedTypes = spread_key (includedTypes existingTypeFilter) (includedTypes preset),
     excludedTypes = spread_key (excludedTypes existingTypeFilter) (excludedTypes preset),
     includedPrimaryTypes =
       spread_key (includedPrimaryTypes existingTypeFilter) (includedPrimaryTypes preset),
     excludedPrimaryTypes =
       spread_key (excludedPrimaryTypes existingTypeFilter) (excludedPrimaryTypes preset) \<rparr>"

text \<open>
  The first block of \<^verbatim>\<open>execute\<close> (``Apply business intelligence presets if applicable''):
  the value of \<^verbatim>\<open>enhancedFilter\<close> when the retry loop starts.
\<close>

definition enhancedFilter :: "ToolInput \<Rightarrow> QueryFilter" where
  "enhancedFilter ctx =
     (case businessContext ctx of
        None \<Rightarrow> filter' ctx
      | Some bc \<Rightarrow>
          (case industry bc of
             None \<Rightarrow> filter' ctx
           | Some ind \<Rightarrow>
               if ind \<noteq> INDUSTRY_CUSTOM then
                 (case BUSINESS_INTELLIGENCE_PRESETS ind of
                    None \<Rightarrow> filter' ctx
                  | Some preset \<Rightarrow>
                      (filter' ctx)\<lparr>typeFilter :=
                         spread_TypeFilter (typeFilter (filter' ctx)) preset\<rparr>)
               else filter' ctx))"

section \<open>Numbers, strings and the classification engine\<close>

text \<open>
  A JavaScript number is \<open>NaN\<close>, an infinity, or \<open>Num x\<close> for the real \<open>x\<close> that a finite
  double stands for (the sign of zero is not kept). Strings are byte lists, the UTF-8
  encoding of the JavaScript string. The comparisons \<^verbatim>\<open><\<close> and \<^verbatim>\<open>>\<close> are exact on doubles;
  with a finite right-hand side they are false on \<open>NaN\<close>.
\<close>

datatype number = NaN | Infinity | NegInfinity | Num real

text \<open>
  The arithmetic of doubles is not exact, and ECMA-262 leaves \<^verbatim>\<open>Math.pow\<close> and the value of
  long digit strings to the engine. The operations that the source uses are therefore a
  parameter of the model: \<open>fmul\<close> is \<^verbatim>\<open>*\<close>, \<open>fdiv\<close> is \<^verbatim>\<open>/\<close>, \<open>MathPow\<close> is \<^verbatim>\<open>Math.pow\<close>, and
  \<open>toNumber\<close> gives the Number that stands for a mathematical value. What is proved for
  every such arithmetic holds for the engine's.
\<close>

record Arith =
  fmul :: "number \<Rightarrow> number \<Rightarrow> number"
  fdiv :: "number \<Rightarrow> number \<Rightarrow> number"
  MathPow :: "number \<Rightarrow> number \<Rightarrow> number"
  toNumber :: "real \<Rightarrow> number"

text \<open>\<^verbatim>\<open>Math.PI\<close> is the double \<^verbatim>\<open>0x400921FB54442D18\<close>.\<close>

definition MathPI :: number where
  "MathPI = Num (884279719003555 / 281474976710656)"

fun negate :: "number \<Rightarrow> number" where
  "negate NaN = NaN"
| "negate Infinity = NegInfinity"
| "negate NegInfinity = Infinity"
| "negate (Num x) = Num (- x)"

fun lt :: "number \<Rightarrow> real \<Rightarrow> bool" where
  "lt NaN y = False"
| "lt Infinity y = False"
| "lt NegInfinity y = True"
| "lt (Num x) y = (x < y)"

fun gt :: "number \<Rightarrow> real \<Rightarrow> bool" where
  "gt NaN y = False"
| "gt Infinity y = True"
| "gt NegInfinity y = False"
| "gt (Num x) y = (x > y)"

text \<open>
  \<^verbatim>\<open>parseInt(string)\<close> without a radix, after ECMA-262: leading white space is skipped, a
  sign is read, a prefix \<^verbatim>\<open>0x\<close> selects radix 16, and the longest run of digits of the radix
  is the value; no digit at all gives \<open>NaN\<close>.

  \<open>StrWhiteSpaceChar\<close> lists the UTF-8 encodings of the white space and line terminator
  code points: U+0009 to U+000D, U+0020, U+00A0, U+1680, U+2000 to U+200A, U+2028, U+2029,
  U+202F, U+205F, U+3000 and U+FEFF.
\<close>

definition StrWhiteSpaceChar :: "string list" where
  "StrWhiteSpaceChar =
     [[CHR 0x09], [CHR 0x0A], [CHR 0x0B], [CHR 0x0C], [CHR 0x0D], [CHR 0x20],
      [CHR 0xC2, CHR 0xA0],
      [CHR 0xE1, CHR 0x9A, CHR 0x80],
      [CHR 0xE2, CHR 0x80, CHR 0x80], [CHR 0xE2, CHR 0x80, CHR 0x81],
      [CHR 0xE2, CHR 0x80, CHR 0x82], [CHR 0xE2, CHR 0x80, CHR 0x83],
      [CHR 0xE2, CHR 0x80, CHR 0x84], [CHR 0xE2, CHR 0x80, CHR 0x85],
      [CHR 0xE2, CHR 0x80, CHR 0x86], [CHR 0xE2, CHR 0x80, CHR 0x87],
      [CHR 0xE2, CHR 0x80, CHR 0x88], [CHR 0xE2, CHR 0x80, CHR 0x89],
      [CHR 0xE2, CHR 0x80, CHR 0x8A],
      [CHR 0xE2, CHR 0x80, CHR 0xA8], [CHR 0xE2, CHR 0x80, CHR 0xA9],
      [CHR 0xE2, CHR 0x80, CHR 0xAF],
      [CHR 0xE2, CHR 0x81, CHR 0x9F],
      [CHR 0xE3, CHR 0x80, CHR 0x80],
      [CHR 0xEF, CHR 0xBB, CHR 0xBF]]"

definition digitValue :: "char \<Rightarrow> nat" where
  "digitValue c =
     (let n = (of_char c :: nat) in
      if 48 \<le> n \<and> n \<le> 57 then n - 48
      else if 97 \<le> n \<and> n \<le> 122 then n - 87
      else if 65 \<le> n \<and> n \<le> 90 then n - 55
      else 36)"

fun startsWith :: "string \<Rightarrow> string \<Rightarrow> bool" where
  "startsWith s [] = True"
| "startsWith [] (p # ps) = False"
| "startsWith (c # cs) (p # ps) = (c = p \<and> startsWith cs ps)"

text \<open>\<^verbatim>\<open>TrimString(inputString, start)\<close>: the string without its leading white space.\<close>

fun TrimString_start :: "string \<Rightarrow> string" where
  "TrimString_start [] = []"
| "TrimString_start (c # cs) =
     (case find (startsWith (c # cs)) StrWhiteSpaceChar of
        None \<Rightarrow> c # cs
      | Some w \<Rightarrow> TrimString_start (drop (length w - 1) cs))"

text \<open>
  The integers up to \<open>2\<^sup>5\<^sup>3\<close> are doubles; the Number of a larger value is the engine's
  (the nearest double, or for more than 20 digits an approximation of the engine's choice).
\<close>

definition parseInt :: "Arith \<Rightarrow> string \<Rightarrow> number" where
  "parseInt A inputString =
     (let S = TrimString_start inputString;
          negative = startsWith S ''-'';
          S1 = (if startsWith S ''+'' \<or> startsWith S ''-'' then drop 1 S else S);
          hex = (startsWith S1 ''0x'' \<or> startsWith S1 ''0X'');
          R = (if hex then 16 else (10::nat));
          S2 = (if hex then drop 2 S1 else S1);
          Z = takeWhile (\<lambda>c. digitValue c < R) S2;
          mathInt = foldl (\<lambda>n c. n * R + digitValue c) 0 Z;
          number = (if mathInt \<le> 9007199254740992 then Num (real mathInt)
                    else toNumber A (real mathInt))
      in if Z = [] then NaN
         else if negative then negate number else number)"

text \<open>\<^verbatim>\<open>data.count || '0'\<close>: an absent or empty count is replaced by \<^verbatim>\<open>'0'\<close>.\<close>

definition count_or_zero :: "string option \<Rightarrow> string" where
  "count_or_zero c = (case c of None \<Rightarrow> ''0'' | Some s \<Rightarrow> if s = [] then ''0'' else s)"

text \<open>
  A template literal is kept as the list of its pieces: the literal text and the numbers
  interpolated into it (\<^verbatim>\<open>${x}\<close> and \<^verbatim>\<open>${x.toFixed(2)}\<close>), whose decimal rendering is not
  modelled. \<open>km2\<close> is ``km'' followed by the superscript two (U+00B2, two bytes).
\<close>

datatype piece = Str string | NumStr number | ToFixed2 number

type_synonym template = "piece list"

definition lit :: "string \<Rightarrow> template" where
  "lit s = [Str s]"

definition km2 :: string where
  "km2 = ''km'' @ [CHR 0xC2, CHR 0xB2]"

datatype competitionLevel = LOW | MODERATE | HIGH | SATURATED

text \<open>The four lists that \<^verbatim>\<open>generateBusinessIntelligence\<close> fills with \<^verbatim>\<open>push\<close>.\<close>

record Lists =
  recs :: "template list"
  risks :: "template list"
  opps :: "template list"
  insts :: "template list"

record BusinessIntelligence =
  marketDensity :: template
  competitionLevel :: competitionLevel
  recommendations :: "template list"
  riskFactors :: "template list option"
  opportunities :: "template list option"
  strategicInsights :: "template list option"

text \<open>
  \<^verbatim>\<open>count / (Math.PI * Math.pow(radius / 1000, 2))\<close>, operation by operation in the
  arithmetic of doubles.
\<close>

definition density_of :: "Arith \<Rightarrow> number \<Rightarrow> real \<Rightarrow> number" where
  "density_of A count' radius' =
     fdiv A count' (fmul A MathPI (MathPow A (fdiv A (Num radius') (Num 1000)) (Num 2)))"

text \<open>``Determine competition level based on density'': the level and the baseline strings.\<close>

definition by_density :: "number \<Rightarrow> competitionLevel \<times> Lists" where
  "by_density density =
     (if lt density 1 then
        (LOW, \<lparr>
           recs = [lit ''Market opportunity exists with low competition'',
                   lit ''Consider being a market pioneer in this area''],
           risks = [],
           opps = [lit ''First-mover advantage in underserved market''],
           insts = [] \<rparr>)
      else if lt density 5 then
        (MODERATE, \<lparr>
           recs = [lit ''Balanced market with room for differentiation'',
                   lit ''Focus on unique value proposition''],
           risks = [],
           opps = [],
           insts = [lit ''Market has healthy competition - focus on service quality''] \<rparr>)
      else if lt density 15 then
        (HIGH, \<lparr>
           recs = [lit ''Highly competitive market - strong differentiation required''],
           risks = [lit ''High competition may impact market share''],
           opps = [],
           insts = [lit ''Consider niche positioning or superior customer experience''] \<rparr>)
      else
        (SATURATED, \<lparr>
           recs = [lit ''Market appears saturated - consider alternative locations''],
           risks = [lit ''Market saturation may limit growth potential'',
                    lit ''High customer acquisition costs likely''],
           opps = [lit ''Consider consolidation or acquisition opportunities''],
           insts = [] \<rparr>))"

text \<open>``Industry-specific insights''.\<close>

definition by_industry :: "BusinessContext option \<Rightarrow> competitionLevel \<Rightarrow> Lists \<Rightarrow> Lists" where
  "by_industry bc level l =
     (case (case bc of None \<Rightarrow> None | Some b \<Rightarrow> industry b) of
        None \<Rightarrow> l
      | Some ind \<Rightarrow>
          if ind = RETAIL_GENERAL \<or> ind = FOOD_SERVICE then
            (let l1 = l\<lparr>insts := insts l @
                         [lit ''Consider seasonal demand patterns for inventory planning'']\<rparr>
             in if level = HIGH
                then l1\<lparr>recs := recs l1 @
                          [lit ''Focus on loyalty programs and customer retention'']\<rparr>
                else l1)
          else if ind = SOLO_PROFESSIONAL \<or> ind = PROFESSIONAL_SERVICES then
            (let l1 = l\<lparr>insts := insts l @
                         [lit ''Build personal brand and professional network'']\<rparr>
             in if level = LOW
                then l1\<lparr>opps := opps l1 @
                          [lit ''Potential for premium pricing in underserved market'']\<rparr>
                else l1)
          else if ind = TECH_SERVICES then
            l\<lparr>insts := insts l @ [lit ''Consider digital marketing and online presence''],
              recs := recs l @ [lit ''Focus on technology adoption and innovation'']\<rparr>
          else l)"

text \<open>``Analysis type specific insights'': the \<^verbatim>\<open>switch\<close>, which has no default case.\<close>

definition by_analysisType ::
  "analysisType \<Rightarrow> number \<Rightarrow> number \<Rightarrow> real \<Rightarrow> competitionLevel \<Rightarrow> Lists \<Rightarrow> Lists" where
  "by_analysisType intent density count' radius' level l =
     (case intent of
        MARKET_DENSITY \<Rightarrow>
          l\<lparr>recs := recs l @
              [[Str ''Market density: '', ToFixed2 density, Str ('' businesses per '' @ km2)]]\<rparr>
      | COMPETITOR_ANALYSIS \<Rightarrow>
          (let l1 = l\<lparr>recs := recs l @
                       [[NumStr count', Str '' direct competitors identified in '',
                         NumStr (Num radius'), Str ''m radius'']]\<rparr>
           in if gt count' 10
              then l1\<lparr>risks := risks l1 @
                        [lit ''High number of competitors may indicate market saturation'']\<rparr>
              else l1)
      | LOCATION_SUITABILITY \<Rightarrow>
          if level = LOW then
            l\<lparr>recs := recs l @
                [lit ''Location shows good potential for new business entry'']\<rparr>
          else if level = SATURATED then
            l\<lparr>recs := recs l @
                [lit ''Consider alternative locations with less competition'']\<rparr>
          else l
      | PRICE_ANALYSIS \<Rightarrow> l
      | CUSTOM \<Rightarrow> l)"

text \<open>\<^verbatim>\<open>xs.length > 0 ? xs : undefined\<close>\<close>

definition unless_empty :: "'a list \<Rightarrow> 'a list option" where
  "unless_empty xs = (if length xs > 0 then Some xs else None)"

definition generateBusinessIntelligence ::
  "Arith \<Rightarrow> number \<Rightarrow> real \<Rightarrow> analysisType \<Rightarrow> BusinessContext option
     \<Rightarrow> BusinessIntelligence" where
  "generateBusinessIntelligence A count' radius' intent bc =
     (let density = density_of A count' radius';
          (level, l0) = by_density density;
          l1 = by_industry bc level l0;
          l2 = by_analysisType intent density count' radius' level l1
      in \<lparr> marketDensity =
             [ToFixed2 density, Str ('' businesses per '' @ km2 @ '' (''), NumStr count',
              Str '' total in '', NumStr (Num radius'), Str ''m radius)''],
           competitionLevel = level,
           recommendations = recs l2,
           riskFactors = unless_empty (risks l2),
           opportunities = unless_empty (opps l2),
           strategicInsights = unless_empty (insts l2) \<rparr>)"

section \<open>The remote service\<close>

text \<open>
  The parsed response body \<^verbatim>\<open>data\<close>: the count as the service encodes it (a string, as the
  tool's output schema declares it) and the array of place insights. An entry of the
  array is \<open>None\<close> when it is \<^verbatim>\<open>null\<close>, on which reading a property throws; any other entry
  is \<open>Some\<close> of a value whose property \<^verbatim>\<open>place\<close> may be absent.
\<close>

record PlaceInsight =
  place :: "string option"

record ResponseData =
  count :: "string option"
  placeInsights :: "PlaceInsight option list option"

text \<open>
  What one \<^verbatim>\<open>fetch\<close> leads to inside the \<^verbatim>\<open>try\<close> block: \<open>Throws m\<close> is an exception of
  \<^verbatim>\<open>fetch\<close>, \<^verbatim>\<open>text()\<close> or \<^verbatim>\<open>json()\<close> with message \<open>m\<close>; \<open>NotOk status body\<close> is a response
  with \<^verbatim>\<open>response.ok\<close> false; \<open>Ok d\<close> is a response with \<^verbatim>\<open>response.ok\<close> true whose
  JSON value is \<open>d\<close>, \<open>None\<close> standing for a falsy value such as \<^verbatim>\<open>null\<close>.
\<close>

datatype response = Throws "string option" | NotOk nat string | Ok "ResponseData option"

record RequestBody =
  request_insights :: "string list"
  request_filter :: QueryFilter

datatype error =
    MissingApiKey
  | RequestFailed nat string
  | Thrown "string option"
  | NoData
  | TypeError

text \<open>The decimal digits of a status code, as a template literal prints it.\<close>

fun decimal :: "nat \<Rightarrow> string" where
  "decimal n =
     (if n < 10 then [char_of (48 + n)]
      else decimal (n div 10) @ [char_of (48 + n mod 10)])"

fun message :: "error \<Rightarrow> string option" where
  "message MissingApiKey =
     Some ''Google API key not found. Please set the GOOGLE_API_KEY environment variable.''"
| "message (RequestFailed status errorBody) =
     Some (''Google Places Insights API request failed with status '' @ decimal status
           @ '': '' @ errorBody)"
| "message (Thrown m) = m"
| "message NoData =
     Some ''Failed to get data from Google Places API after all retry attempts''"
| "message TypeError =
     Some (''Cannot read properties of null (reading '' @ [CHR 0x27] @ ''place''
           @ [CHR 0x27] @ '')'')"

text \<open>\<^verbatim>\<open>String.prototype.includes\<close>, here \<open>str_includes\<close>.\<close>

fun str_includes :: "string \<Rightarrow> string \<Rightarrow> bool" where
  "str_includes [] searchString = (searchString = [])"
| "str_includes (c # cs) searchString =
     (startsWith (c # cs) searchString \<or> str_includes cs searchString)"

definition capacityPhrase :: string where
  "capacityPhrase = ''maximum number of allowed places''"

text \<open>\<^verbatim>\<open>error.message?.includes('maximum number of allowed places')\<close>\<close>

definition message_includes_phrase :: "error \<Rightarrow> bool" where
  "message_includes_phrase e =
     (case message e of None \<Rightarrow> False | Some m \<Rightarrow> str_includes m capacityPhrase)"

section \<open>The retry loop\<close>

definition maxAttempts :: nat where
  "maxAttempts = 3"

definition validPrimaryTypes :: "string list" where
  "validPrimaryTypes =
     [''restaurant'', ''store'', ''hotel'', ''bank'', ''school'', ''gym'', ''spa'',
      ''beauty_salon'', ''lawyer'', ''accounting'', ''dentist'', ''doctor'', ''car_dealer'',
      ''car_rental'', ''car_repair'', ''gas_station'', ''plumber'', ''electrician'',
      ''contractor'', ''software_company'']"

text \<open>
  The value of the local variable \<^verbatim>\<open>correctedPreset\<close> once the two repairs of the
  ``minimum radius reached'' branch have run on a copy of the current type filter.
\<close>

definition correctedPreset :: "TypeFilter \<Rightarrow> TypeFilter" where
  "correctedPreset tf =
     tf\<lparr> includedTypes :=
           map_option
             (map (\<lambda>type. if type = ''fast_food'' then ''fast_food_restaurant'' else type))
             (includedTypes tf),
         includedPrimaryTypes :=
           map_option (filter (\<lambda>type. type \<in> set validPrimaryTypes))
             (includedPrimaryTypes tf) \<rparr>"

text \<open>
  \<^verbatim>\<open>currentFilter.locationFilter?.circle?.radius || 1000\<close>: an absent circle and a radius
  of 0 both give 1000.
\<close>

definition radius_or_1000 :: "QueryFilter \<Rightarrow> real" where
  "radius_or_1000 f =
     (case circle (locationFilter f) of
        None \<Rightarrow> 1000
      | Some c \<Rightarrow> if radius c = 0 then 1000 else radius c)"

text \<open>
  The nested spread that both branches assign to \<^verbatim>\<open>currentFilter\<close>: every property is
  kept and \<^verbatim>\<open>locationFilter.circle.radius\<close> becomes \<open>newRadius\<close>; spreading an absent circle
  gives a circle that has the radius only.
\<close>

definition with_radius :: "QueryFilter \<Rightarrow> real \<Rightarrow> QueryFilter" where
  "with_radius currentFilter newRadius =
     currentFilter\<lparr> locationFilter := (locationFilter currentFilter)\<lparr> circle := Some
       (case circle (locationFilter currentFilter) of
          None \<Rightarrow> \<lparr> latLng = None, circle_place = None, radius = newRadius \<rparr>
        | Some c \<Rightarrow> c\<lparr> radius := newRadius \<rparr>) \<rparr> \<rparr>"

text \<open>
  The handler of a capacity rejection (status 429 with the phrase), after \<^verbatim>\<open>attempts++\<close>:
  the filter of the next attempt. In the branch \<^verbatim>\<open>newRadius < 50\<close> the source computes
  \<^verbatim>\<open>correctedPreset\<close> and then assigns the same object as the other branch.
\<close>

definition reduce_radius :: "QueryFilter \<Rightarrow> QueryFilter" where
  "reduce_radius currentFilter =
     (let currentRadius = radius_or_1000 currentFilter;
          newRadius = real_of_int \<lfloor>currentRadius * 0.25\<rfloor>
      in if newRadius < 50 then
           (let corrected = correctedPreset (typeFilter currentFilter)
            in with_radius currentFilter newRadius)
         else with_radius currentFilter newRadius)"

text \<open>The body of the \<^verbatim>\<open>try\<close> block on one response.\<close>

datatype attempt = Continue QueryFilter | Break "ResponseData option" | Raise error

definition try_block :: "response \<Rightarrow> QueryFilter \<Rightarrow> attempt" where
  "try_block r currentFilter =
     (case r of
        Throws m \<Rightarrow> Raise (Thrown m)
      | NotOk status errorBody \<Rightarrow>
          if status = 429 \<and> str_includes errorBody capacityPhrase
          then Continue (reduce_radius currentFilter)
          else Raise (RequestFailed status errorBody)
      | Ok d \<Rightarrow> Break d)"

text \<open>
  The \<^verbatim>\<open>while (attempts < maxAttempts)\<close> loop. The service is a function from the number
  of requests made so far and the request body to what the request leads to. The loop
  returns the requests it has sent, in order, and either the error it throws or the value
  of \<^verbatim>\<open>data\<close> when it ends.
\<close>

function retry_loop ::
  "(nat \<Rightarrow> RequestBody \<Rightarrow> response) \<Rightarrow> string list \<Rightarrow> QueryFilter \<Rightarrow> nat \<Rightarrow> RequestBody list
     \<Rightarrow> RequestBody list \<times> (error + ResponseData option)" where
  "retry_loop fetch ins currentFilter attempts sent =
     (if attempts < maxAttempts then
        (let requestBody = \<lparr> request_insights = ins, request_filter = currentFilter \<rparr>;
             sent1 = sent @ [requestBody]
         in case try_block (fetch (length sent) requestBody) currentFilter of
              Continue nextFilter \<Rightarrow> retry_loop fetch ins nextFilter (attempts + 1) sent1
            | Break d \<Rightarrow> (sent1, Inr d)
            | Raise e \<Rightarrow>
                if attempts \<ge> maxAttempts \<or> \<not> message_includes_phrase e
                then (sent1, Inl e)
                else retry_loop fetch ins currentFilter (attempts + 1) sent1)
      else (sent, Inr None))"
  by pat_completeness auto
termination
  by (relation "measure (\<lambda>(fetch, ins, currentFilter, attempts, sent). maxAttempts - attempts)")
    auto

section \<open>The result\<close>

record RetailMarketerInsights =
  targetAudienceDensity :: template
  competitivePositioning :: template
  marketingRecommendations :: "template list"

record SoloProfessionalInsights =
  marketGapAnalysis :: template
  clientAcquisitionPotential :: template
  serviceDifferentiation :: "template list"

definition generateRetailInsights :: "Arith \<Rightarrow> ResponseData \<Rightarrow> RetailMarketerInsights" where
  "generateRetailInsights A data =
     (let count' = parseInt A (count_or_zero (count data)) in \<lparr>
        targetAudienceDensity =
          (if gt count' 0
           then [Str ''High customer density area ('', NumStr count',
                 Str '' similar businesses)'']
           else lit ''Low customer density area''),
        competitivePositioning =
          (if gt count' 10 then lit ''Highly competitive - focus on differentiation''
           else lit ''Low competition - opportunity for market capture''),
        marketingRecommendations =
          [lit ''Develop targeted local marketing campaigns'',
           lit ''Consider partnerships with complementary businesses'',
           lit ''Build customer loyalty programs'',
           lit ''Leverage social media for local engagement''] \<rparr>)"

definition generateSoloProfessionalInsights ::
  "Arith \<Rightarrow> ResponseData \<Rightarrow> SoloProfessionalInsights" where
  "generateSoloProfessionalInsights A data =
     (let count' = parseInt A (count_or_zero (count data)) in \<lparr>
        marketGapAnalysis =
          (if lt count' 3 then lit ''Significant market gap - high opportunity''
           else lit ''Established market with moderate competition''),
        clientAcquisitionPotential =
          (if lt count' 5 then lit ''High potential for new client acquisition''
           else lit ''Focus on client retention and referrals''),
        serviceDifferentiation =
          [lit ''Develop specialized service offerings'',
           lit ''Build personal brand and credibility'',
           lit ''Create referral networks'',
           lit ''Offer premium consultation services''] \<rparr>)"

text \<open>
  The properties \<^verbatim>\<open>analysisType\<close> and \<^verbatim>\<open>industry\<close> of the metadata are the fields
  \<open>metadata_analysisType\<close> and \<open>metadata_industry\<close>; \<^verbatim>\<open>result.count\<close> is \<open>result_count\<close>.
\<close>

record Metadata =
  metadata_analysisType :: analysisType
  metadata_industry :: "industry option"
  searchRadius :: "real option"
  filterCriteria :: QueryFilter
  timestamp :: string
  strategicContext :: "BusinessContext option"

record ToolResult =
  result_count :: "string option"
  places :: "string option list option"
  businessIntelligence :: "BusinessIntelligence option"
  metadata :: Metadata
  retailMarketerInsights :: "RetailMarketerInsights option"
  soloProfessionalInsights :: "SoloProfessionalInsights option"

text \<open>\<^verbatim>\<open>context.analysisType && context.analysisType !== 'CUSTOM'\<close>\<close>

definition wants_intelligence :: "ToolInput \<Rightarrow> bool" where
  "wants_intelligence ctx =
     (case analysisType ctx of None \<Rightarrow> False | Some a \<Rightarrow> a \<noteq> CUSTOM)"

text \<open>\<^verbatim>\<open>enhancedFilter.locationFilter?.circle?.radius\<close> when it is truthy.\<close>

definition truthy_radius :: "QueryFilter \<Rightarrow> real option" where
  "truthy_radius f =
     (case circle (locationFilter f) of
        None \<Rightarrow> None
      | Some c \<Rightarrow> if radius c = 0 then None else Some (radius c))"

text \<open>\<^verbatim>\<open>context.businessContext?.industry\<close>\<close>

definition industry_of :: "ToolInput \<Rightarrow> industry option" where
  "industry_of ctx = (case businessContext ctx of None \<Rightarrow> None | Some bc \<Rightarrow> industry bc)"

text \<open>
  \<^verbatim>\<open>data.placeInsights.map((insight) => insight.place)\<close> when the array is present: the
  identifier of every entry, absent ones included; on a \<^verbatim>\<open>null\<close> entry the property
  access throws a \<^verbatim>\<open>TypeError\<close>.
\<close>

definition map_places ::
  "PlaceInsight option list option \<Rightarrow> error + string option list option" where
  "map_places insights' =
     (case insights' of
        None \<Rightarrow> Inr None
      | Some xs \<Rightarrow>
          (case those xs of
             None \<Rightarrow> Inl TypeError
           | Some entries \<Rightarrow> Inr (Some (map place entries))))"

text \<open>
  The result that \<^verbatim>\<open>execute\<close> returns, as a function of the input, of \<^verbatim>\<open>enhancedFilter\<close>, of
  \<^verbatim>\<open>data\<close>, of the value of \<^verbatim>\<open>result.places\<close> and of the time stamp.
\<close>

definition build_result ::
  "Arith \<Rightarrow> ToolInput \<Rightarrow> QueryFilter \<Rightarrow> ResponseData \<Rightarrow> string option list option \<Rightarrow> string
     \<Rightarrow> ToolResult" where
  "build_result A ctx enhanced data mapped now = \<lparr>
     result_count = count data,
     places = mapped,
     businessIntelligence =
       (case analysisType ctx of
          None \<Rightarrow> None
        | Some a \<Rightarrow>
            if a \<noteq> CUSTOM then
              Some (generateBusinessIntelligence A (parseInt A (count_or_zero (count data)))
                      (radius_or_1000 enhanced) a (businessContext ctx))
            else None),
     metadata = \<lparr>
       metadata_analysisType = (case analysisType ctx of None \<Rightarrow> CUSTOM | Some a \<Rightarrow> a),
       metadata_industry = industry_of ctx,
       searchRadius = (if wants_intelligence ctx then truthy_radius enhanced else None),
       filterCriteria = enhanced,
       timestamp = now,
       strategicContext = (if industry_of ctx = None then None else businessContext ctx) \<rparr>,
     retailMarketerInsights =
       (if industry_of ctx = Some RETAIL_GENERAL \<or> industry_of ctx = Some FOOD_SERVICE
        then Some (generateRetailInsights A data) else None),
     soloProfessionalInsights =
       (if industry_of ctx = Some RETAIL_GENERAL \<or> industry_of ctx = Some FOOD_SERVICE
        then None
        else if industry_of ctx = Some SOLO_PROFESSIONAL
                \<or> industry_of ctx = Some PROFESSIONAL_SERVICES
        then Some (generateSoloProfessionalInsights A data) else None) \<rparr>"

text \<open>
  The part of \<^verbatim>\<open>execute\<close> after the loop (``Parse API response'' to \<^verbatim>\<open>return result\<close>): it
  throws what the mapping of the place insights throws, and returns the result otherwise.
\<close>

definition parse_response ::
  "Arith \<Rightarrow> ToolInput \<Rightarrow> QueryFilter \<Rightarrow> ResponseData \<Rightarrow> string \<Rightarrow> error + ToolResult" where
  "parse_response A ctx enhanced data now =
     (case map_places (placeInsights data) of
        Inl e \<Rightarrow> Inl e
      | Inr mapped \<Rightarrow> Inr (build_result A ctx enhanced data mapped now))"

text \<open>
  What \<^verbatim>\<open>execute\<close> reads from outside: the environment variable, the service, the clock,
  and the arithmetic of the engine.
\<close>

record Env =
  GOOGLE_API_KEY :: "string option"
  fetch :: "nat \<Rightarrow> RequestBody \<Rightarrow> response"
  clock :: string
  arith :: Arith

text \<open>
  \<^verbatim>\<open>execute\<close>: the requests sent, and the error thrown or the result returned.
\<close>

definition execute :: "Env \<Rightarrow> ToolInput \<Rightarrow> RequestBody list \<times> (error + ToolResult)" where
  "execute env ctx =
     (if (case GOOGLE_API_KEY env of None \<Rightarrow> True | Some apiKey \<Rightarrow> apiKey = []) then
        ([], Inl MissingApiKey)
      else
        (let enhanced = enhancedFilter ctx;
             (sent, outcome) = retry_loop (fetch env) (insights ctx) enhanced 0 []
         in case outcome of
              Inl e \<Rightarrow> (sent, Inl e)
            | Inr None \<Rightarrow> (sent, Inl NoData)
            | Inr (Some data) \<Rightarrow>
                (sent, parse_response (arith env) ctx enhanced data (clock env))))"

section \<open>Concrete inputs\<close>

definition circle_of_radius :: "real \<Rightarrow> LocationFilter" where
  "circle_of_radius r = \<lparr>
     circle = Some \<lparr> latLng = Some (40, -74), circle_place = None, radius = r \<rparr>,
     region = None, customArea = None \<rparr>"

definition filter_of :: "real \<Rightarrow> TypeFilter \<Rightarrow> QueryFilter" where
  "filter_of r tf = \<lparr>
     locationFilter = circle_of_radius r, typeFilter = tf,
     operatingStatus = [''OPERATING_STATUS_OPERATIONAL''],
     priceLevels = None, ratingFilter = None \<rparr>"

definition only_included :: "string list \<Rightarrow> TypeFilter" where
  "only_included ts = \<lparr>
     includedTypes = Some ts, excludedTypes = None,
     includedPrimaryTypes = None, excludedPrimaryTypes = None \<rparr>"

definition context_of :: "industry option \<Rightarrow> BusinessContext" where
  "context_of ind = \<lparr>
     industry = ind, targetCustomers = None, businessModel = None,
     strategicGoals = None, budgetRange = None \<rparr>"

definition input_of ::
  "QueryFilter \<Rightarrow> analysisType option \<Rightarrow> BusinessContext option \<Rightarrow> ToolInput" where
  "input_of f intent bc = \<lparr>
     insights = [''INSIGHT_COUNT''], filter' = f, analysisType = intent, businessContext = bc \<rparr>"

text \<open>A caller asking for cafes only, in the food-service industry.\<close>

definition cafe_input :: ToolInput where
  "cafe_input = input_of (filter_of 1000 (only_included [''cafe''])) (Some MARKET_DENSITY)
     (Some (context_of (Some FOOD_SERVICE)))"

text \<open>An input without business context whose type filter needs both repairs.\<close>

definition fast_food_filter :: TypeFilter where
  "fast_food_filter = \<lparr>
     includedTypes = Some [''fast_food'', ''cafe''], excludedTypes = None,
     includedPrimaryTypes = Some [''restaurant'', ''hospital''], excludedPrimaryTypes = None \<rparr>"

definition fast_food_input :: ToolInput where
  "fast_food_input = input_of (filter_of 100 fast_food_filter) (Some MARKET_DENSITY) None"

text \<open>An input asking for no analysis.\<close>

definition custom_input :: ToolInput where
  "custom_input = input_of (filter_of 1000 (only_included [''cafe''])) (Some CUSTOM) None"

text \<open>An input asking for the market density of cafes, without business context.\<close>

definition density_input :: ToolInput where
  "density_input =
     input_of (filter_of 1000 (only_included [''cafe''])) (Some MARKET_DENSITY) None"

text \<open>Response bodies and services.\<close>

definition capacity_body :: string where
  "capacity_body = ''Exceeded the maximum number of allowed places''"

definition five_found :: ResponseData where
  "five_found = \<lparr> count = Some ''5'', placeInsights = None \<rparr>"

definition two_insights :: ResponseData where
  "two_insights = \<lparr> count = None,
     placeInsights = Some [Some \<lparr> place = Some ''places/A'' \<rparr>, Some \<lparr> place = None \<rparr>] \<rparr>"

definition null_insight :: ResponseData where
  "null_insight = \<lparr> count = Some ''5'',
     placeInsights = Some [Some \<lparr> place = Some ''places/A'' \<rparr>, None] \<rparr>"

text \<open>
  An arithmetic for the concrete runs: the exact result when the operands are finite, the
  divisor is not 0 and the exponent is 2, and \<open>NaN\<close> otherwise. It is one of the arithmetics
  that the general statements range over, not the arithmetic of doubles; on \<^verbatim>\<open>*\<close> and \<^verbatim>\<open>/\<close>
  the doubles give the same wherever the exact result is a double.
\<close>

definition exact_arith :: Arith where
  "exact_arith = \<lparr>
     fmul = (\<lambda>a b. case a of Num x \<Rightarrow> (case b of Num y \<Rightarrow> Num (x * y) | _ \<Rightarrow> NaN) | _ \<Rightarrow> NaN),
     fdiv = (\<lambda>a b. case a of
               Num x \<Rightarrow> (case b of Num y \<Rightarrow> if y = 0 then NaN else Num (x / y) | _ \<Rightarrow> NaN)
             | _ \<Rightarrow> NaN),
     MathPow = (\<lambda>a b. case a of
               Num x \<Rightarrow> (case b of Num y \<Rightarrow> if y = 2 then Num (x * x) else NaN | _ \<Rightarrow> NaN)
             | _ \<Rightarrow> NaN),
     toNumber = Num \<rparr>"

definition always_capacity :: "nat \<Rightarrow> RequestBody \<Rightarrow> response" where
  "always_capacity n rb = NotOk 429 capacity_body"

definition capacity_then :: "nat \<Rightarrow> ResponseData \<Rightarrow> nat \<Rightarrow> RequestBody \<Rightarrow> response" where
  "capacity_then k d n rb = (if n < k then NotOk 429 capacity_body else Ok (Some d))"

definition server_error_then :: "string \<Rightarrow> ResponseData \<Rightarrow> nat \<Rightarrow> RequestBody \<Rightarrow> response" where
  "server_error_then body d n rb = (if n = 0 then NotOk 500 body else Ok (Some d))"

definition always_server_error :: "nat \<Rightarrow> RequestBody \<Rightarrow> response" where
  "always_server_error n rb = NotOk 500 capacity_body"

definition env_of :: "(nat \<Rightarrow> RequestBody \<Rightarrow> response) \<Rightarrow> Env" where
  "env_of service = \<lparr>
     GOOGLE_API_KEY = Some ''key'', fetch = service, clock = ''2025-01-01T00:00:00.000Z'',
     arith = exact_arith \<rparr>"

section \<open>Facts about the retry loop\<close>

declare retry_loop.simps [simp del]
declare decimal.simps [simp del]

text \<open>
  The message of a failed request contains the capacity phrase exactly when the body of
  the response does: the text before the body has no letter \<open>m\<close>, with which the phrase
  starts.
\<close>

lemma str_includes_skip:
  "p \<notin> set pre \<Longrightarrow> str_includes (pre @ s) (p # ps) = str_includes s (p # ps)"
  by (induction pre) auto

lemma digit_not_m: "n < 10 \<Longrightarrow> char_of (48 + n) \<noteq> CHR ''m''" for n :: nat
proof
  assume n: "n < 10" and eq: "char_of (48 + n) = CHR ''m''"
  from eq have "(of_char (char_of (48 + n) :: char) :: nat) = of_char (CHR ''m'')"
    by simp
  with n show False by simp
qed

lemma decimal_no_m: "CHR ''m'' \<notin> set (decimal n)"
proof (induction n rule: decimal.induct)
  case (1 n)
  show ?case
  proof (cases "n < 10")
    case True
    then show ?thesis
      using digit_not_m [of n] by (subst decimal.simps) auto
  next
    case False
    have "n mod 10 < 10" by simp
    then have "char_of (48 + n mod 10) \<noteq> CHR ''m''" by (rule digit_not_m)
    with False "1.IH" show ?thesis
      by (subst decimal.simps) auto
  qed
qed

lemma RequestFailed_includes_phrase:
  "message_includes_phrase (RequestFailed status errorBody)
     = str_includes errorBody capacityPhrase"
proof -
  let ?pre = "''Google Places Insights API request failed with status '' @ decimal status @ '': ''"
  have "CHR ''m'' \<notin> set ?pre"
    using decimal_no_m [of status] by simp
  then have "str_includes (?pre @ errorBody) capacityPhrase = str_includes errorBody capacityPhrase"
    unfolding capacityPhrase_def by (rule str_includes_skip)
  then show ?thesis
    by (simp add: message_includes_phrase_def)
qed

text \<open>One iteration of the loop, case by case.\<close>

lemma retry_loop_exit:
  "\<not> attempts < maxAttempts \<Longrightarrow> retry_loop srv ins cf attempts sent = (sent, Inr None)"
  by (subst retry_loop.simps) simp

lemma retry_loop_Continue:
  "attempts < maxAttempts \<Longrightarrow>
   try_block (srv (length sent) \<lparr>request_insights = ins, request_filter = cf\<rparr>) cf = Continue nf \<Longrightarrow>
   retry_loop srv ins cf attempts sent
     = retry_loop srv ins nf (attempts + 1) (sent @ [\<lparr>request_insights = ins, request_filter = cf\<rparr>])"
  by (subst retry_loop.simps) (simp add: Let_def)

lemma retry_loop_Break:
  "attempts < maxAttempts \<Longrightarrow>
   try_block (srv (length sent) \<lparr>request_insights = ins, request_filter = cf\<rparr>) cf = Break d \<Longrightarrow>
   retry_loop srv ins cf attempts sent
     = (sent @ [\<lparr>request_insights = ins, request_filter = cf\<rparr>], Inr d)"
  by (subst retry_loop.simps) (simp add: Let_def)

lemma retry_loop_Raise:
  "attempts < maxAttempts \<Longrightarrow>
   try_block (srv (length sent) \<lparr>request_insights = ins, request_filter = cf\<rparr>) cf = Raise e \<Longrightarrow>
   retry_loop srv ins cf attempts sent
     = (if message_includes_phrase e
        then retry_loop srv ins cf (attempts + 1)
               (sent @ [\<lparr>request_insights = ins, request_filter = cf\<rparr>])
        else (sent @ [\<lparr>request_insights = ins, request_filter = cf\<rparr>], Inl e))"
  by (subst retry_loop.simps) (simp add: Let_def)

text \<open>Each iteration sends one request and uses up one of the three attempts.\<close>

lemma retry_loop_length:
  "length (fst (retry_loop srv ins cf attempts sent)) \<le> length sent + (maxAttempts - attempts)"
proof (induction "maxAttempts - attempts" arbitrary: cf attempts sent)
  case 0
  then show ?case by (simp add: retry_loop_exit)
next
  case (Suc n)
  then have lt: "attempts < maxAttempts" and n: "n = maxAttempts - (attempts + 1)"
    by simp_all
  let ?rb = "\<lparr>request_insights = ins, request_filter = cf\<rparr>"
  have step: "length (fst (retry_loop srv ins f (attempts + 1) (sent @ [?rb])))
                \<le> length sent + (maxAttempts - attempts)" for f
    using Suc.hyps(1) [OF n, of f "sent @ [?rb]"] lt by simp
  have base: "Suc (length sent) \<le> length sent + (maxAttempts - attempts)"
    using lt by arith
  show ?case
  proof (cases "try_block (srv (length sent) ?rb) cf")
    case (Continue nf)
    then show ?thesis using step by (simp add: retry_loop_Continue [OF lt])
  next
    case (Break d)
    then show ?thesis using base by (simp add: retry_loop_Break [OF lt])
  next
    case (Raise e)
    show ?thesis
    proof (cases "message_includes_phrase e")
      case True
      with Raise step show ?thesis by (simp add: retry_loop_Raise [OF lt])
    next
      case False
      with Raise base show ?thesis by (simp add: retry_loop_Raise [OF lt])
    qed
  qed
qed

text \<open>
  A successful invocation: its last request was answered by the data of the result, its
  first request carries the filter built before the loop.
\<close>

lemma try_block_Break: "try_block r cf = Break d \<Longrightarrow> r = Ok d"
  by (auto simp: try_block_def split: response.splits if_splits)

lemma retry_loop_success:
  "retry_loop srv ins cf attempts sent = (sent', Inr (Some d)) \<Longrightarrow>
   srv (length sent' - 1) (last sent') = Ok (Some d)
   \<and> (\<exists>rest. sent' = sent @ \<lparr>request_insights = ins, request_filter = cf\<rparr> # rest)"
proof (induction "maxAttempts - attempts" arbitrary: cf attempts sent)
  case 0
  then show ?case by (simp add: retry_loop_exit)
next
  case (Suc n)
  then have lt: "attempts < maxAttempts" and n: "n = maxAttempts - (attempts + 1)"
    by simp_all
  let ?rb = "\<lparr>request_insights = ins, request_filter = cf\<rparr>"
  have step: "srv (length sent' - 1) (last sent') = Ok (Some d)
     \<and> (\<exists>rest. sent' = sent @ ?rb # rest)"
    if "retry_loop srv ins f (attempts + 1) (sent @ [?rb]) = (sent', Inr (Some d))" for f
    using Suc.hyps(1) [OF n that] by auto
  show ?case
  proof (cases "try_block (srv (length sent) ?rb) cf")
    case (Continue nf)
    with Suc.prems step show ?thesis by (simp add: retry_loop_Continue [OF lt])
  next
    case (Break d')
    with Suc.prems have "sent' = sent @ [?rb]" and "d' = Some d"
      by (simp_all add: retry_loop_Break [OF lt])
    with try_block_Break [OF Break] show ?thesis by simp
  next
    case (Raise e)
    with Suc.prems step show ?thesis
      by (simp add: retry_loop_Raise [OF lt] split: if_splits)
  qed
qed

lemma execute_success:
  assumes "execute env ctx = (sent, Inr res)"
  shows "\<exists>d mapped. fetch env (length sent - 1) (last sent) = Ok (Some d)
           \<and> sent \<noteq> [] \<and> request_filter (hd sent) = enhancedFilter ctx
           \<and> map_places (placeInsights d) = Inr mapped
           \<and> res = build_result (arith env) ctx (enhancedFilter ctx) d mapped (clock env)"
proof -
  obtain s out where loop:
    "retry_loop (fetch env) (insights ctx) (enhancedFilter ctx) 0 [] = (s, out)"
    by (cases "retry_loop (fetch env) (insights ctx) (enhancedFilter ctx) 0 []")
  with assms obtain d where "out = Inr (Some d)" and "s = sent"
    and res: "parse_response (arith env) ctx (enhancedFilter ctx) d (clock env) = Inr res"
    by (auto simp: execute_def Let_def split: if_splits sum.splits option.splits)
  with loop have "retry_loop (fetch env) (insights ctx) (enhancedFilter ctx) 0 []
      = (sent, Inr (Some d))" by simp
  from retry_loop_success [OF this] res show ?thesis
    by (auto simp: parse_response_def split: sum.splits)
qed

text \<open>
  Conversely, when the loop ends with data whose place insights have no \<^verbatim>\<open>null\<close> entry,
  the invocation returns a result.
\<close>

lemma execute_returns:
  assumes "GOOGLE_API_KEY env = Some apiKey" and "apiKey \<noteq> []"
    and "retry_loop (fetch env) (insights ctx) (enhancedFilter ctx) 0 [] = (sent, Inr (Some d))"
    and "map_places (placeInsights d) = Inr mapped"
  shows "execute env ctx
     = (sent, Inr (build_result (arith env) ctx (enhancedFilter ctx) d mapped (clock env)))"
  using assms by (simp add: execute_def Let_def parse_response_def)

text \<open>An invocation sends at most three requests.\<close>

lemma execute_at_most_three_requests: "length (fst (execute env ctx)) \<le> 3"
proof -
  have "length (fst (retry_loop (fetch env) (insights ctx) (enhancedFilter ctx) 0 [])) \<le> 3"
    using retry_loop_length [of "fetch env" "insights ctx" "enhancedFilter ctx" 0 "[]"]
    by (simp add: maxAttempts_def)
  then show ?thesis
    by (auto simp: execute_def Let_def split: prod.splits sum.splits option.splits)
qed

text \<open>
  A response without the capacity phrase in its body ends the loop: the request that it
  answers is the last one, and the loop throws the error built from it.
\<close>

lemma try_block_no_phrase:
  "\<not> str_includes errorBody capacityPhrase \<Longrightarrow>
   try_block (NotOk status errorBody) cf = Raise (RequestFailed status errorBody)"
  by (simp add: try_block_def)

lemma retry_loop_extends:
  "\<exists>rest. fst (retry_loop srv ins cf attempts sent) = sent @ rest"
proof (induction "maxAttempts - attempts" arbitrary: cf attempts sent)
  case 0
  then show ?case by (simp add: retry_loop_exit)
next
  case (Suc n)
  then have lt: "attempts < maxAttempts" and n: "n = maxAttempts - (attempts + 1)"
    by simp_all
  let ?rb = "\<lparr>request_insights = ins, request_filter = cf\<rparr>"
  have step: "\<exists>rest. fst (retry_loop srv ins f (attempts + 1) (sent @ [?rb])) = sent @ rest" for f
    using Suc.hyps(1) [OF n, of f "sent @ [?rb]"] by auto
  show ?case
  proof (cases "try_block (srv (length sent) ?rb) cf")
    case (Continue nf)
    then show ?thesis using step by (simp add: retry_loop_Continue [OF lt])
  next
    case (Break d)
    then show ?thesis by (simp add: retry_loop_Break [OF lt])
  next
    case (Raise e)
    then show ?thesis using step by (simp add: retry_loop_Raise [OF lt])
  qed
qed

lemma retry_loop_abort:
  assumes "retry_loop srv ins cf attempts sent = (sent', out)"
    and "length sent \<le> i" and "i < length sent'"
    and "srv i (sent' ! i) = NotOk status errorBody"
    and "\<not> str_includes errorBody capacityPhrase"
  shows "Suc i = length sent' \<and> out = Inl (RequestFailed status errorBody)"
  using assms
proof (induction "maxAttempts - attempts" arbitrary: cf attempts sent)
  case 0
  then show ?case by (simp add: retry_loop_exit)
next
  case (Suc n)
  then have lt: "attempts < maxAttempts" and n: "n = maxAttempts - (attempts + 1)"
    by simp_all
  let ?rb = "\<lparr>request_insights = ins, request_filter = cf\<rparr>"
  note run = Suc.prems(1)
  have later: "Suc i = length sent' \<and> out = Inl (RequestFailed status errorBody)"
    if "retry_loop srv ins f (attempts + 1) (sent @ [?rb]) = (sent', out)"
      and "length sent < i" for f
    using Suc.hyps(1) [OF n that(1) _ Suc.prems(3) Suc.prems(4) Suc.prems(5)] that(2)
    by simp
  have first: "sent' ! i = ?rb"
    if "retry_loop srv ins f (attempts + 1) (sent @ [?rb]) = (sent', out)"
      and "i = length sent" for f
  proof -
    from retry_loop_extends [of srv ins f "attempts + 1" "sent @ [?rb]"] that(1)
    obtain rest where "sent' = (sent @ [?rb]) @ rest" by auto
    with that(2) show ?thesis by simp
  qed
  show ?case
  proof (cases "try_block (srv (length sent) ?rb) cf")
    case (Continue nf)
    with run have rec: "retry_loop srv ins nf (attempts + 1) (sent @ [?rb]) = (sent', out)"
      by (simp add: retry_loop_Continue [OF lt])
    show ?thesis
    proof (cases "i = length sent")
      case True
      with first [OF rec] Suc.prems(4) have "srv (length sent) ?rb = NotOk status errorBody"
        by simp
      with Continue try_block_no_phrase [OF Suc.prems(5)] show ?thesis by simp
    next
      case False
      with Suc.prems(2) later [OF rec] show ?thesis by simp
    qed
  next
    case (Break d)
    with run have s: "sent' = sent @ [?rb]"
      by (simp add: retry_loop_Break [OF lt])
    with Suc.prems(2,3) have "i = length sent" by simp
    with s Suc.prems(4) have "srv (length sent) ?rb = NotOk status errorBody" by simp
    with Break try_block_no_phrase [OF Suc.prems(5)] show ?thesis by simp
  next
    case (Raise e)
    show ?thesis
    proof (cases "message_includes_phrase e")
      case True
      with Raise run have rec: "retry_loop srv ins cf (attempts + 1) (sent @ [?rb]) = (sent', out)"
        by (simp add: retry_loop_Raise [OF lt])
      show ?thesis
      proof (cases "i = length sent")
        case i: True
        with first [OF rec] Suc.prems(4) have "srv (length sent) ?rb = NotOk status errorBody"
          by simp
        with Raise try_block_no_phrase [OF Suc.prems(5)]
        have "e = RequestFailed status errorBody" by simp
        with True Suc.prems(5) show ?thesis
          by (simp add: RequestFailed_includes_phrase)
      next
        case False
        with Suc.prems(2) later [OF rec] show ?thesis by simp
      qed
    next
      case False
      with Raise run have s: "sent' = sent @ [?rb]" and o: "out = Inl e"
        by (simp_all add: retry_loop_Raise [OF lt])
      with Suc.prems(2,3) have i: "i = length sent" by simp
      with s Suc.prems(4) have "srv (length sent) ?rb = NotOk status errorBody" by simp
      with Raise try_block_no_phrase [OF Suc.prems(5)]
      have "e = RequestFailed status errorBody" by simp
      with s o i show ?thesis by simp
    qed
  qed
qed

text \<open>
  A response with the capacity phrase in its body never ends the loop by itself, whatever
  its status: while attempts remain another request follows, the same one when the status
  is not 429; after the third attempt the loop ends without data.
\<close>

lemma retry_loop_first_request:
  assumes "attempts < maxAttempts"
  shows "\<exists>rest. fst (retry_loop srv ins cf attempts sent)
           = sent @ \<lparr>request_insights = ins, request_filter = cf\<rparr> # rest"
proof -
  let ?rb = "\<lparr>request_insights = ins, request_filter = cf\<rparr>"
  have step: "\<exists>rest. fst (retry_loop srv ins f (attempts + 1) (sent @ [?rb])) = sent @ ?rb # rest"
    for f
    using retry_loop_extends [of srv ins f "attempts + 1" "sent @ [?rb]"] by auto
  show ?thesis
  proof (cases "try_block (srv (length sent) ?rb) cf")
    case (Continue nf)
    then show ?thesis using step by (simp add: retry_loop_Continue [OF assms])
  next
    case (Break d)
    then show ?thesis by (simp add: retry_loop_Break [OF assms])
  next
    case (Raise e)
    then show ?thesis using step by (simp add: retry_loop_Raise [OF assms])
  qed
qed

lemma try_block_phrase:
  assumes "str_includes errorBody capacityPhrase"
  shows "try_block (NotOk status errorBody) cf
     = (if status = 429 then Continue (reduce_radius cf)
        else Raise (RequestFailed status errorBody))"
  using assms by (simp add: try_block_def)

lemma retry_loop_phrase:
  assumes "retry_loop srv ins cf attempts sent = (sent', out)"
    and "length sent \<le> i" and "i < length sent'"
    and "srv i (sent' ! i) = NotOk status errorBody"
    and "str_includes errorBody capacityPhrase"
  shows "if attempts + (i - length sent) + 1 < maxAttempts
         then Suc i < length sent' \<and> (status \<noteq> 429 \<longrightarrow> sent' ! Suc i = sent' ! i)
         else Suc i = length sent' \<and> out = Inr None"
  using assms
proof (induction "maxAttempts - attempts" arbitrary: cf attempts sent)
  case 0
  then show ?case by (simp add: retry_loop_exit)
next
  case (Suc n)
  then have lt: "attempts < maxAttempts" and n: "n = maxAttempts - (attempts + 1)"
    by simp_all
  let ?rb = "\<lparr>request_insights = ins, request_filter = cf\<rparr>"
  note run = Suc.prems(1)
  from retry_loop_first_request [OF lt, of srv ins cf sent] run
  obtain rest where sent': "sent' = sent @ ?rb # rest" by auto
  show ?case
  proof (cases "i = length sent")
    case True
    with sent' Suc.prems(4) have resp: "srv (length sent) ?rb = NotOk status errorBody"
      by simp
    define f where "f = (if status = 429 then reduce_radius cf else cf)"
    have rec: "retry_loop srv ins f (attempts + 1) (sent @ [?rb]) = (sent', out)"
    proof (cases "status = 429")
      case s: True
      with resp try_block_phrase [OF Suc.prems(5), of status cf]
      have "try_block (srv (length sent) ?rb) cf = Continue (reduce_radius cf)" by simp
      with run s show ?thesis by (simp add: retry_loop_Continue [OF lt] f_def)
    next
      case s: False
      with resp try_block_phrase [OF Suc.prems(5), of status cf]
      have "try_block (srv (length sent) ?rb) cf = Raise (RequestFailed status errorBody)"
        by simp
      with run s Suc.prems(5) show ?thesis
        by (simp add: retry_loop_Raise [OF lt] f_def RequestFailed_includes_phrase)
    qed
    show ?thesis
    proof (cases "attempts + 1 < maxAttempts")
      case more: True
      from retry_loop_first_request [OF more, of srv ins f "sent @ [?rb]"] rec
      obtain rest' where "sent' = (sent @ [?rb]) @ \<lparr>request_insights = ins, request_filter = f\<rparr> # rest'"
        by auto
      with True more show ?thesis by (auto simp: f_def nth_append)
    next
      case False
      with rec have "sent' = sent @ [?rb]" and "out = Inr None"
        by (simp_all add: retry_loop_exit)
      with True False show ?thesis by simp
    qed
  next
    case False
    with Suc.prems(2) have later: "length (sent @ [?rb]) \<le> i" by simp
    have rec: "\<exists>f. retry_loop srv ins f (attempts + 1) (sent @ [?rb]) = (sent', out)"
    proof (cases "try_block (srv (length sent) ?rb) cf")
      case (Continue nf)
      with run show ?thesis by (auto simp: retry_loop_Continue [OF lt])
    next
      case (Break d)
      with run have "sent' = sent @ [?rb]" by (simp add: retry_loop_Break [OF lt])
      with Suc.prems(3) later show ?thesis by simp
    next
      case (Raise e)
      show ?thesis
      proof (cases "message_includes_phrase e")
        case True
        with Raise run show ?thesis by (auto simp: retry_loop_Raise [OF lt])
      next
        case False
        with Raise run have "sent' = sent @ [?rb]" by (simp add: retry_loop_Raise [OF lt])
        with Suc.prems(3) later show ?thesis by simp
      qed
    qed
    then obtain f where rec: "retry_loop srv ins f (attempts + 1) (sent @ [?rb]) = (sent', out)"
      by blast
    have idx: "attempts + 1 + (i - length (sent @ [?rb])) + 1 = attempts + (i - length sent) + 1"
      using later by simp
    from Suc.hyps(1) [OF n rec later Suc.prems(3) Suc.prems(4) Suc.prems(5)]
    show ?thesis unfolding idx .
  qed
qed

section \<open>Facts about single steps and concrete runs\<close>

lemmas input_defs = input_of_def filter_of_def circle_of_radius_def only_included_def
  context_of_def env_of_def
lemmas step_defs = try_block_def maxAttempts_def reduce_radius_def radius_or_1000_def
  with_radius_def

lemma capacity_body_includes: "str_includes capacity_body capacityPhrase"
  by (simp add: capacity_body_def capacityPhrase_def)

lemma reduce_radius_typeFilter: "typeFilter (reduce_radius f) = typeFilter f"
  by (simp add: reduce_radius_def with_radius_def Let_def)

lemma reduce_radius_radius:
  "radius_or_1000 (reduce_radius f) =
     (if \<lfloor>radius_or_1000 f * 0.25\<rfloor> = 0 then 1000 else real_of_int \<lfloor>radius_or_1000 f * 0.25\<rfloor>)"
  by (simp add: reduce_radius_def with_radius_def Let_def radius_or_1000_def split: option.splits)

lemma reduce_radius_circle:
  "\<exists>c. circle (locationFilter (reduce_radius f)) = Some c
       \<and> radius c = real_of_int \<lfloor>radius_or_1000 f * 0.25\<rfloor>"
  by (simp add: reduce_radius_def with_radius_def Let_def split: option.splits)

text \<open>The preset merge leaves the location filter of the caller as it is.\<close>

lemma enhancedFilter_locationFilter:
  "locationFilter (enhancedFilter ctx) = locationFilter (filter' ctx)"
  by (simp add: enhancedFilter_def split: option.split)

text \<open>\<^verbatim>\<open>parseInt\<close> on short strings, in every arithmetic.\<close>

lemma parseInt_zero: "parseInt A ''0'' = Num 0"
  by (simp add: parseInt_def StrWhiteSpaceChar_def digitValue_def)

lemma parseInt_five: "parseInt A ''5'' = Num 5"
  by (simp add: parseInt_def StrWhiteSpaceChar_def digitValue_def)

lemma parseInt_after_no_break_space: "parseInt A ([CHR 0xC2, CHR 0xA0] @ ''7'') = Num 7"
  by (simp add: parseInt_def StrWhiteSpaceChar_def digitValue_def)

lemma parseInt_no_digit: "parseInt A ''abc'' = NaN"
  by (simp add: parseInt_def StrWhiteSpaceChar_def digitValue_def)

lemma competitionLevel_generate:
  "competitionLevel (generateBusinessIntelligence A c r intent bc)
     = fst (by_density (density_of A c r))"
  by (simp add: generateBusinessIntelligence_def Let_def split: prod.split)

text \<open>A run with one capacity rejection followed by a success.\<close>

lemma run_shrunk:
  "execute (env_of (capacity_then 1 five_found)) density_input
     = ([\<lparr>request_insights = [''INSIGHT_COUNT''],
          request_filter = filter_of 1000 (only_included [''cafe''])\<rparr>,
         \<lparr>request_insights = [''INSIGHT_COUNT''],
          request_filter = with_radius (filter_of 1000 (only_included [''cafe''])) 250\<rparr>],
        Inr (build_result exact_arith density_input (filter_of 1000 (only_included [''cafe'']))
               five_found None ''2025-01-01T00:00:00.000Z''))"
  by (simp add: execute_def enhancedFilter_def density_input_def input_of_def env_of_def
      retry_loop.simps capacity_then_def capacity_body_includes try_block_def maxAttempts_def
      reduce_radius_def radius_or_1000_def filter_of_def circle_of_radius_def Let_def
      parse_response_def map_places_def five_found_def)

text \<open>Runs that succeed at the first request.\<close>

lemma run_two_insights:
  "execute (env_of (capacity_then 0 two_insights)) density_input
     = ([\<lparr>request_insights = [''INSIGHT_COUNT''],
          request_filter = filter_of 1000 (only_included [''cafe''])\<rparr>],
        Inr (build_result exact_arith density_input (filter_of 1000 (only_included [''cafe'']))
               two_insights (Some [Some ''places/A'', None]) ''2025-01-01T00:00:00.000Z''))"
  by (simp add: execute_def enhancedFilter_def density_input_def input_of_def env_of_def
      retry_loop.simps capacity_then_def try_block_def maxAttempts_def Let_def
      parse_response_def map_places_def two_insights_def)

text \<open>A run that succeeds at the first request with a \<^verbatim>\<open>null\<close> place insight.\<close>

lemma run_null_insight:
  "execute (env_of (capacity_then 0 null_insight)) density_input
     = ([\<lparr>request_insights = [''INSIGHT_COUNT''],
          request_filter = filter_of 1000 (only_included [''cafe''])\<rparr>],
        Inl TypeError)"
  by (simp add: execute_def enhancedFilter_def density_input_def input_of_def env_of_def
      retry_loop.simps capacity_then_def try_block_def maxAttempts_def Let_def
      parse_response_def map_places_def null_insight_def)

lemma run_custom:
  "execute (env_of (capacity_then 0 five_found)) custom_input
     = ([\<lparr>request_insights = [''INSIGHT_COUNT''],
          request_filter = filter_of 1000 (only_included [''cafe''])\<rparr>],
        Inr (build_result exact_arith custom_input (filter_of 1000 (only_included [''cafe'']))
               five_found None ''2025-01-01T00:00:00.000Z''))"
  by (simp add: execute_def enhancedFilter_def custom_input_def input_of_def env_of_def
      retry_loop.simps capacity_then_def try_block_def maxAttempts_def Let_def
      parse_response_def map_places_def five_found_def)

text \<open>
  No count in a radius of 1000: every step of the density is exact (\<open>1000 / 1000 = 1\<close>,
  \<open>1\<^sup>2 = 1\<close>, \<open>\<pi> * 1 = \<pi>\<close>, \<open>0 / \<pi> = 0\<close>, with \<open>\<pi>\<close> the double \<^verbatim>\<open>Math.PI\<close>), so the doubles,
  on which \<^verbatim>\<open>Math.pow(1, 2)\<close> is 1, give the same.
\<close>

lemma density_zero_1000: "density_of exact_arith (Num 0) 1000 = Num 0"
  by (simp add: density_of_def exact_arith_def MathPI_def)

lemma level_zero_1000:
  "competitionLevel (generateBusinessIntelligence exact_arith (Num 0) 1000 intent bc) = LOW"
  by (simp add: competitionLevel_generate density_zero_1000 by_density_def)

text \<open>Runs whose first response is a server error.\<close>

lemma run_server_error_with_phrase:
  "execute (env_of (server_error_then capacity_body five_found)) density_input
     = ([\<lparr>request_insights = [''INSIGHT_COUNT''],
          request_filter = filter_of 1000 (only_included [''cafe''])\<rparr>,
         \<lparr>request_insights = [''INSIGHT_COUNT''],
          request_filter = filter_of 1000 (only_included [''cafe''])\<rparr>],
        Inr (build_result exact_arith density_input (filter_of 1000 (only_included [''cafe'']))
               five_found None ''2025-01-01T00:00:00.000Z''))"
  by (simp add: execute_def enhancedFilter_def density_input_def input_of_def env_of_def
      retry_loop.simps server_error_then_def capacity_body_includes try_block_def
      maxAttempts_def Let_def RequestFailed_includes_phrase
      parse_response_def map_places_def five_found_def)

lemma run_server_error:
  "execute (env_of (server_error_then ''Internal error'' five_found)) density_input
     = ([\<lparr>request_insights = [''INSIGHT_COUNT''],
          request_filter = filter_of 1000 (only_included [''cafe''])\<rparr>],
        Inl (RequestFailed 500 ''Internal error''))"
  by (simp add: execute_def enhancedFilter_def density_input_def input_of_def env_of_def
      retry_loop.simps server_error_then_def try_block_def capacityPhrase_def
      maxAttempts_def Let_def RequestFailed_includes_phrase
      parse_response_def map_places_def five_found_def)

lemma run_always_server_error:
  "execute (env_of always_server_error) density_input
     = ([\<lparr>request_insights = [''INSIGHT_COUNT''],
          request_filter = filter_of 1000 (only_included [''cafe''])\<rparr>,
         \<lparr>request_insights = [''INSIGHT_COUNT''],
          request_filter = filter_of 1000 (only_included [''cafe''])\<rparr>,
         \<lparr>request_insights = [''INSIGHT_COUNT''],
          request_filter = filter_of 1000 (only_included [''cafe''])\<rparr>],
        Inl NoData)"
  by (simp add: execute_def enhancedFilter_def density_input_def input_of_def env_of_def
      retry_loop.simps always_server_error_def capacity_body_includes try_block_def
      maxAttempts_def Let_def RequestFailed_includes_phrase)



lemma unless_empty_iff: "unless_empty xs = (if xs = [] then None else Some xs)"
  by (simp add: unless_empty_def)

lemma recs_by_density: "recs (snd (by_density d)) \<noteq> []"
  by (simp add: by_density_def)

lemma recs_by_industry: "recs l \<noteq> [] \<Longrightarrow> recs (by_industry bc level l) \<noteq> []"
  by (simp add: by_industry_def Let_def split: option.split)

lemma recs_by_analysisType:
  "recs l \<noteq> [] \<Longrightarrow> recs (by_analysisType intent d c r level l) \<noteq> []"
  by (simp add: by_analysisType_def Let_def split: analysisType.split)

lemma recommendations_not_empty:
  "recommendations (generateBusinessIntelligence A c r intent bc) \<noteq> []"
proof -
  obtain level l0 where bd: "by_density (density_of A c r) = (level, l0)"
    by (cases "by_density (density_of A c r)")
  with recs_by_density [of "density_of A c r"] have "recs l0 \<noteq> []"
    by simp
  then have "recs (by_analysisType intent (density_of A c r) c r level (by_industry bc level l0))
      \<noteq> []"
    by (intro recs_by_analysisType recs_by_industry)
  then show ?thesis
    by (simp add: generateBusinessIntelligence_def Let_def bd)
qed

lemma omitted_lists:
  "riskFactors (generateBusinessIntelligence A c r intent bc) \<noteq> Some []"
  "opportunities (generateBusinessIntelligence A c r intent bc) \<noteq> Some []"
  "strategicInsights (generateBusinessIntelligence A c r intent bc) \<noteq> Some []"
  by (simp_all add: generateBusinessIntelligence_def Let_def unless_empty_iff split: prod.split)

section \<open>The preset merge\<close>

lemma spread_key_simps:
  "spread_key a None = a" "spread_key a (Some v) = Some v"
  by (simp_all add: spread_key_def)

text \<open>
  Claim C1, as stated, at the spec's own example and at a preset of the table: the effective
  included types are the preset's, not the caller's \<^verbatim>\<open>["cafe"]\<close>.
\<close>

theorem preset_overrides_user_list:
  "includedTypes (spread_TypeFilter (only_included [''cafe''])
       (only_included [''restaurant'', ''bar''])) = Some [''restaurant'', ''bar'']
   \<and> includedTypes (typeFilter (filter' cafe_input)) = Some [''cafe'']
   \<and> includedTypes (typeFilter (enhancedFilter cafe_input))
       = Some [''cafe'', ''fast_food_restaurant'', ''meal_takeaway'', ''bar'']
   \<and> includedTypes (typeFilter (enhancedFilter cafe_input)) \<noteq> Some [''cafe'']"
  by (simp add: spread_TypeFilter_def spread_key_simps only_included_def cafe_input_def
      input_of_def filter_of_def context_of_def enhancedFilter_def)

text \<open>
  Claim C1, amended: for every caller filter and every industry with a preset, each of the
  four lists of the effective type filter is the preset's list when the preset defines that
  list and the caller's list otherwise; no preset defines \<open>excludedPrimaryTypes\<close>, so that
  one is always the caller's. The result is one of the two lists, never their concatenation.
\<close>

theorem preset_merge_precedence:
  assumes "businessContext ctx = Some bc" and "industry bc = Some ind"
    and "BUSINESS_INTELLIGENCE_PRESETS ind = Some preset"
  shows "includedTypes (typeFilter (enhancedFilter ctx))
           = (case includedTypes preset of Some p \<Rightarrow> Some p
              | None \<Rightarrow> includedTypes (typeFilter (filter' ctx)))
       \<and> excludedTypes (typeFilter (enhancedFilter ctx))
           = (case excludedTypes preset of Some p \<Rightarrow> Some p
              | None \<Rightarrow> excludedTypes (typeFilter (filter' ctx)))
       \<and> includedPrimaryTypes (typeFilter (enhancedFilter ctx))
           = (case includedPrimaryTypes preset of Some p \<Rightarrow> Some p
              | None \<Rightarrow> includedPrimaryTypes (typeFilter (filter' ctx)))
       \<and> excludedPrimaryTypes (typeFilter (enhancedFilter ctx))
           = excludedPrimaryTypes (typeFilter (filter' ctx))"
proof -
  have custom: "ind \<noteq> INDUSTRY_CUSTOM"
    using assms(3) by auto
  have no_excl: "excludedPrimaryTypes preset = None"
    using assms(3) by (cases ind) auto
  have eff: "typeFilter (enhancedFilter ctx) = spread_TypeFilter (typeFilter (filter' ctx)) preset"
    using assms custom by (simp add: enhancedFilter_def)
  show ?thesis
    unfolding eff by (simp add: spread_TypeFilter_def spread_key_def no_excl)
qed

theorem preset_merge_precedence_witness:
  "includedTypes (typeFilter (enhancedFilter cafe_input))
       = Some [''cafe'', ''fast_food_restaurant'', ''meal_takeaway'', ''bar'']
   \<and> excludedTypes (typeFilter (enhancedFilter cafe_input)) = Some [''lodging'', ''gas_station'']
   \<and> includedPrimaryTypes (typeFilter (enhancedFilter cafe_input)) = Some [''restaurant'']
   \<and> excludedPrimaryTypes (typeFilter (enhancedFilter cafe_input)) = None"
proof -
  have bc: "businessContext cafe_input = Some (context_of (Some FOOD_SERVICE))"
    by (simp add: cafe_input_def input_of_def)
  have ind: "industry (context_of (Some FOOD_SERVICE)) = Some FOOD_SERVICE"
    by (simp add: context_of_def)
  have user: "typeFilter (filter' cafe_input) = only_included [''cafe'']"
    by (simp add: cafe_input_def input_of_def filter_of_def)
  show ?thesis
    using preset_merge_precedence [OF bc ind BUSINESS_INTELLIGENCE_PRESETS.simps(2)]
    by (simp add: user only_included_def)
qed

section \<open>Radius reduction under capacity rejections\<close>

text \<open>
  Claim C2 at a request of radius 100 that the service rejects for capacity every time: the
  three requests carry the radii 100, 25 and 6. The second radius is \<open>\<lfloor>100 * 0.25\<rfloor> = 25\<close>,
  below the minimum of 50 that the source's comment announces, where the claim has 50.
  That each step sets the radius to the floor of a quarter (\<open>reduce_radius_circle\<close>) and
  that at most three requests are sent (\<open>retry_loop_length\<close>) hold for every run.
\<close>

theorem radius_goes_below_floor:
  "map (\<lambda>rb. map_option radius (circle (locationFilter (request_filter rb))))
       (fst (execute (env_of always_capacity) fast_food_input)) = [Some 100, Some 25, Some 6]
   \<and> snd (execute (env_of always_capacity) fast_food_input) = Inl NoData"
  by (simp add: execute_def enhancedFilter_def fast_food_input_def input_defs
      retry_loop.simps always_capacity_def capacity_body_includes step_defs Let_def)

text \<open>
  Claim C3 on the same run, whose type filter has the deprecated tag and a primary type
  outside the vocabulary: all three requests carry the type filter unchanged, although
  the repaired filter differs from it. The repair is computed and never assigned.
\<close>

theorem repair_is_not_sent:
  "map (\<lambda>rb. typeFilter (request_filter rb))
       (fst (execute (env_of always_capacity) fast_food_input))
     = [fast_food_filter, fast_food_filter, fast_food_filter]
   \<and> correctedPreset fast_food_filter = \<lparr>
        includedTypes = Some [''fast_food_restaurant'', ''cafe''], excludedTypes = None,
        includedPrimaryTypes = Some [''restaurant''], excludedPrimaryTypes = None \<rparr>
   \<and> correctedPreset fast_food_filter \<noteq> fast_food_filter"
  apply (intro conjI)
    apply (simp add: execute_def enhancedFilter_def fast_food_input_def input_defs
      retry_loop.simps always_capacity_def capacity_body_includes step_defs Let_def)
   apply (simp add: correctedPreset_def fast_food_filter_def validPrimaryTypes_def)
  apply (simp add: correctedPreset_def fast_food_filter_def validPrimaryTypes_def)
  done

section \<open>What the result reports\<close>

text \<open>
  The result is built from the filter of the preset merge, that is from the location
  filter of the caller: the filter of the first request, whatever the retries did.
\<close>

lemma result_reports_enhancedFilter:
  assumes "execute env ctx = (sent, Inr res)"
  shows "filterCriteria (metadata res) = enhancedFilter ctx
       \<and> locationFilter (filterCriteria (metadata res)) = locationFilter (filter' ctx)
       \<and> sent \<noteq> [] \<and> filterCriteria (metadata res) = request_filter (hd sent)
       \<and> searchRadius (metadata res)
           = (if wants_intelligence ctx then truthy_radius (enhancedFilter ctx) else None)
       \<and> (\<exists>d. fetch env (length sent - 1) (last sent) = Ok (Some d)
            \<and> businessIntelligence res
                = (if wants_intelligence ctx
                   then Some (generateBusinessIntelligence (arith env)
                          (parseInt (arith env) (count_or_zero (count d)))
                          (radius_or_1000 (enhancedFilter ctx)) (the (analysisType ctx))
                          (businessContext ctx))
                   else None))"
proof -
  from execute_success [OF assms] obtain d mapped where
    d: "fetch env (length sent - 1) (last sent) = Ok (Some d)"
    and first: "sent \<noteq> []" "request_filter (hd sent) = enhancedFilter ctx"
    and res: "res = build_result (arith env) ctx (enhancedFilter ctx) d mapped (clock env)"
    by blast
  have bi: "businessIntelligence res
      = (if wants_intelligence ctx
         then Some (generateBusinessIntelligence (arith env)
                (parseInt (arith env) (count_or_zero (count d)))
                (radius_or_1000 (enhancedFilter ctx)) (the (analysisType ctx))
                (businessContext ctx))
         else None)"
    by (simp add: res build_result_def wants_intelligence_def split: option.split)
  have "filterCriteria (metadata res) = enhancedFilter ctx"
    by (simp add: res build_result_def)
  moreover have "searchRadius (metadata res)
      = (if wants_intelligence ctx then truthy_radius (enhancedFilter ctx) else None)"
    by (simp add: res build_result_def)
  ultimately show ?thesis
    using first d bi by (auto simp: enhancedFilter_locationFilter)
qed

text \<open>
  Five places in a radius of 250, in exact arithmetic: the density of the circle searched
  is in the highest band, the density over a radius of 1000 in the second one.
\<close>

lemma five_in_250_or_in_1000:
  "competitionLevel (generateBusinessIntelligence exact_arith (Num 5) 250 MARKET_DENSITY None)
     = SATURATED
   \<and> competitionLevel (generateBusinessIntelligence exact_arith (Num 5) 1000 MARKET_DENSITY None)
     = MODERATE"
  by (simp add: competitionLevel_generate density_of_def exact_arith_def MathPI_def
      by_density_def)

text \<open>
  Claim C4 on a run of radius 1000 whose first request is rejected for capacity and whose
  second request, of radius 250, finds five places: the metadata carries the search
  radius 1000 and the filter of radius 1000, and the classification is computed and
  worded for ``5 total in 1000m radius'', where the claim has the radius 250 of the last
  request.
\<close>

theorem metadata_keeps_requested_radius:
  "map (\<lambda>rb. map_option radius (circle (locationFilter (request_filter rb))))
       (fst (execute (env_of (capacity_then 1 five_found)) density_input))
     = [Some 1000, Some 250]
   \<and> snd (execute (env_of (capacity_then 1 five_found)) density_input)
     = Inr (build_result exact_arith density_input (filter_of 1000 (only_included [''cafe'']))
              five_found None ''2025-01-01T00:00:00.000Z'')
   \<and> searchRadius (metadata (build_result exact_arith density_input
         (filter_of 1000 (only_included [''cafe''])) five_found None
         ''2025-01-01T00:00:00.000Z''))
     = Some 1000
   \<and> map_option radius (circle (locationFilter (filterCriteria (metadata (build_result
         exact_arith density_input (filter_of 1000 (only_included [''cafe''])) five_found None
         ''2025-01-01T00:00:00.000Z''))))) = Some 1000
   \<and> map_option marketDensity (businessIntelligence (build_result exact_arith density_input
         (filter_of 1000 (only_included [''cafe''])) five_found None
         ''2025-01-01T00:00:00.000Z''))
     = Some [ToFixed2 (density_of exact_arith (Num 5) 1000),
             Str ('' businesses per '' @ km2 @ '' (''),
             NumStr (Num 5), Str '' total in '', NumStr (Num 1000), Str ''m radius)'']"
  apply (simp only: run_shrunk fst_conv snd_conv)
  apply (simp add: build_result_def wants_intelligence_def truthy_radius_def density_input_def
      input_of_def filter_of_def circle_of_radius_def with_radius_def radius_or_1000_def
      generateBusinessIntelligence_def Let_def five_found_def count_or_zero_def parseInt_five
      split: prod.split)
  done

text \<open>
  Claim C5, as stated, on a response without count and a request for market density: the
  result has no count, and it has a classification all the same, the one of the count 0.
\<close>

theorem absent_count_is_classified:
  "snd (execute (env_of (capacity_then 0 two_insights)) density_input)
     = Inr (build_result exact_arith density_input (filter_of 1000 (only_included [''cafe'']))
              two_insights (Some [Some ''places/A'', None]) ''2025-01-01T00:00:00.000Z'')
   \<and> count two_insights = None
   \<and> result_count (build_result exact_arith density_input
        (filter_of 1000 (only_included [''cafe''])) two_insights
        (Some [Some ''places/A'', None]) ''2025-01-01T00:00:00.000Z'') = None
   \<and> businessIntelligence (build_result exact_arith density_input
        (filter_of 1000 (only_included [''cafe''])) two_insights
        (Some [Some ''places/A'', None]) ''2025-01-01T00:00:00.000Z'')
     = Some (generateBusinessIntelligence exact_arith (Num 0) 1000 MARKET_DENSITY None)
   \<and> competitionLevel (generateBusinessIntelligence exact_arith (Num 0) 1000 MARKET_DENSITY
        None) = LOW"
  apply (simp only: run_two_insights snd_conv level_zero_1000)
  apply (simp add: build_result_def two_insights_def density_input_def input_of_def
      count_or_zero_def parseInt_zero radius_or_1000_def filter_of_def circle_of_radius_def)
  done

text \<open>
  Claim C5, amended: when the count is absent from the response, the result has no count,
  and the classification is still produced for every analysis type other than
  \<^verbatim>\<open>'CUSTOM'\<close>, computed with the count 0 that \<^verbatim>\<open>data.count || '0'\<close> substitutes; there is no
  classification only when the analysis type is \<^verbatim>\<open>'CUSTOM'\<close> or absent.
\<close>

theorem absent_count_counts_as_zero:
  assumes "execute env ctx = (sent, Inr res)"
    and "fetch env (length sent - 1) (last sent) = Ok (Some d)"
    and "count d = None"
  shows "result_count res = None
       \<and> businessIntelligence res
           = (case analysisType ctx of
                None \<Rightarrow> None
              | Some a \<Rightarrow>
                  if a = CUSTOM then None
                  else Some (generateBusinessIntelligence (arith env) (Num 0)
                         (radius_or_1000 (enhancedFilter ctx)) a (businessContext ctx)))"
proof -
  from execute_success [OF assms(1)] assms(2) obtain mapped where
    res: "res = build_result (arith env) ctx (enhancedFilter ctx) d mapped (clock env)"
    by auto
  show ?thesis
    by (simp add: res build_result_def assms(3) count_or_zero_def parseInt_zero
        split: option.split)
qed

theorem absent_count_counts_as_zero_witness:
  "execute (env_of (capacity_then 0 two_insights)) density_input
     = ([\<lparr>request_insights = [''INSIGHT_COUNT''],
          request_filter = filter_of 1000 (only_included [''cafe''])\<rparr>],
        Inr (build_result exact_arith density_input (filter_of 1000 (only_included [''cafe'']))
               two_insights (Some [Some ''places/A'', None]) ''2025-01-01T00:00:00.000Z''))
   \<and> count two_insights = None
   \<and> result_count (build_result exact_arith density_input
        (filter_of 1000 (only_included [''cafe''])) two_insights
        (Some [Some ''places/A'', None]) ''2025-01-01T00:00:00.000Z'') = None
   \<and> businessIntelligence (build_result exact_arith density_input
        (filter_of 1000 (only_included [''cafe''])) two_insights
        (Some [Some ''places/A'', None]) ''2025-01-01T00:00:00.000Z'')
     = Some (generateBusinessIntelligence exact_arith (Num 0) 1000 MARKET_DENSITY None)"
proof -
  have last: "fetch (env_of (capacity_then 0 two_insights))
      (length [\<lparr>request_insights = [''INSIGHT_COUNT''],
          request_filter = filter_of 1000 (only_included [''cafe''])\<rparr>] - 1)
      (last [\<lparr>request_insights = [''INSIGHT_COUNT''],
          request_filter = filter_of 1000 (only_included [''cafe''])\<rparr>]) = Ok (Some two_insights)"
    by (simp add: env_of_def capacity_then_def)
  have absent: "count two_insights = None"
    by (simp add: two_insights_def)
  have ef: "radius_or_1000 (enhancedFilter density_input) = 1000"
    by (simp add: enhancedFilter_def density_input_def input_of_def radius_or_1000_def
        filter_of_def circle_of_radius_def)
  have intent: "analysisType density_input = Some MARKET_DENSITY"
    "businessContext density_input = None"
    by (simp_all add: density_input_def input_of_def)
  have a: "arith (env_of (capacity_then 0 two_insights)) = exact_arith"
    by (simp add: env_of_def)
  from absent_count_counts_as_zero [OF run_two_insights last absent] run_two_insights absent
  show ?thesis
    by (simp add: ef intent a)
qed

section \<open>Density and competition level\<close>



section \<open>Errors that end the loop\<close>

text \<open>
  Claim C7, as stated, on a first response with status 500 whose body contains the
  capacity phrase: the response does not match the capacity signature (the status is not
  429), and yet a second request is sent and the invocation succeeds. The message of the
  thrown error embeds the body, and the \<^verbatim>\<open>catch\<close> clause retries on the phrase alone.
\<close>

theorem status_500_with_phrase_is_retried:
  "fetch (env_of (server_error_then capacity_body five_found)) 0
     \<lparr>request_insights = [''INSIGHT_COUNT''],
      request_filter = filter_of 1000 (only_included [''cafe''])\<rparr> = NotOk 500 capacity_body
   \<and> length (fst (execute (env_of (server_error_then capacity_body five_found)) density_input))
     = 2
   \<and> snd (execute (env_of (server_error_then capacity_body five_found)) density_input)
     = Inr (build_result exact_arith density_input (filter_of 1000 (only_included [''cafe'']))
              five_found None ''2025-01-01T00:00:00.000Z'')"
  apply (simp only: run_server_error_with_phrase fst_conv snd_conv)
  apply (simp add: env_of_def server_error_then_def)
  done

text \<open>
  Claim C7, amended: for every error response whose body does not contain the capacity
  phrase, whatever its status (a 500, or a 429 without the phrase), at whichever attempt it
  arrives, that request is the last one sent and the invocation fails with the error of
  that response. An error response whose body contains the phrase is not fatal by itself:
  at the first or second attempt another request follows, the very same request when
  the status is not 429, and at the third attempt the invocation ends with the error that
  no data was obtained.
\<close>

theorem error_response_ends_or_retries:
  assumes "execute env ctx = (sent, out)"
    and "i < length sent"
    and "fetch env i (sent ! i) = NotOk status errorBody"
  shows "(\<not> str_includes errorBody capacityPhrase \<longrightarrow>
            Suc i = length sent \<and> out = Inl (RequestFailed status errorBody))
       \<and> (str_includes errorBody capacityPhrase \<and> Suc i < maxAttempts \<longrightarrow>
            Suc i < length sent \<and> (status \<noteq> 429 \<longrightarrow> sent ! Suc i = sent ! i))
       \<and> (str_includes errorBody capacityPhrase \<and> \<not> Suc i < maxAttempts \<longrightarrow>
            Suc i = length sent \<and> out = Inl NoData)"
proof -
  obtain s outcome where loop:
    "retry_loop (fetch env) (insights ctx) (enhancedFilter ctx) 0 [] = (s, outcome)"
    by (cases "retry_loop (fetch env) (insights ctx) (enhancedFilter ctx) 0 []")
  from assms(1,2) have
    key: "\<not> (case GOOGLE_API_KEY env of None \<Rightarrow> True | Some apiKey \<Rightarrow> apiKey = [])"
    by (auto simp: execute_def split: if_splits)
  with assms(1) loop have s: "s = sent"
    by (auto simp: execute_def Let_def split: sum.splits option.splits)
  note loop = loop [unfolded s]
  have out: "out = (case outcome of Inl e \<Rightarrow> Inl e | Inr None \<Rightarrow> Inl NoData
      | Inr (Some data) \<Rightarrow>
          parse_response (arith env) ctx (enhancedFilter ctx) data (clock env))"
    using assms(1) key loop
    by (auto simp: execute_def Let_def split: sum.splits option.splits)
  have without: "Suc i = length sent \<and> out = Inl (RequestFailed status errorBody)"
    if "\<not> str_includes errorBody capacityPhrase"
    using retry_loop_abort [OF loop _ assms(2) assms(3) that] out by simp
  have "with": "if Suc i < maxAttempts
      then Suc i < length sent \<and> (status \<noteq> 429 \<longrightarrow> sent ! Suc i = sent ! i)
      else Suc i = length sent \<and> out = Inl NoData"
    if "str_includes errorBody capacityPhrase"
    using retry_loop_phrase [OF loop _ assms(2) assms(3) that] out
    by (auto split: if_splits)
  from without "with" show ?thesis
    by (auto split: if_splits)
qed

theorem error_response_ends_or_retries_witness:
  "execute (env_of (server_error_then ''Internal error'' five_found)) density_input
     = ([\<lparr>request_insights = [''INSIGHT_COUNT''],
          request_filter = filter_of 1000 (only_included [''cafe''])\<rparr>],
        Inl (RequestFailed 500 ''Internal error''))
   \<and> fetch (env_of (server_error_then ''Internal error'' five_found)) 0
        \<lparr>request_insights = [''INSIGHT_COUNT''],
         request_filter = filter_of 1000 (only_included [''cafe''])\<rparr>
       = NotOk 500 ''Internal error''
   \<and> \<not> str_includes ''Internal error'' capacityPhrase
   \<and> fetch (env_of (server_error_then capacity_body five_found)) 0
        \<lparr>request_insights = [''INSIGHT_COUNT''],
         request_filter = filter_of 1000 (only_included [''cafe''])\<rparr>
       = NotOk 500 capacity_body
   \<and> str_includes capacity_body capacityPhrase
   \<and> fst (execute (env_of (server_error_then capacity_body five_found)) density_input) ! 1
       = fst (execute (env_of (server_error_then capacity_body five_found)) density_input) ! 0
   \<and> fetch (env_of always_server_error) 2
        \<lparr>request_insights = [''INSIGHT_COUNT''],
         request_filter = filter_of 1000 (only_included [''cafe''])\<rparr>
       = NotOk 500 capacity_body
   \<and> length (fst (execute (env_of always_server_error) density_input)) = 3
   \<and> snd (execute (env_of always_server_error) density_input) = Inl NoData"
proof -
  let ?rb = "\<lparr>request_insights = [''INSIGHT_COUNT''],
          request_filter = filter_of 1000 (only_included [''cafe''])\<rparr>"
  have i: "0 < length [?rb]" by simp
  have r: "fetch (env_of (server_error_then ''Internal error'' five_found)) 0 ([?rb] ! 0)
      = NotOk 500 ''Internal error''"
    by (simp add: env_of_def server_error_then_def)
  have p: "\<not> str_includes ''Internal error'' capacityPhrase"
    by (simp add: capacityPhrase_def)
  have i2: "0 < length [?rb, ?rb]" by simp
  have r2: "fetch (env_of (server_error_then capacity_body five_found)) 0 ([?rb, ?rb] ! 0)
      = NotOk 500 capacity_body"
    by (simp add: env_of_def server_error_then_def)
  have i3: "2 < length [?rb, ?rb, ?rb]" by simp
  have r3: "fetch (env_of always_server_error) 2 ([?rb, ?rb, ?rb] ! 2)
      = NotOk 500 capacity_body"
    by (simp add: env_of_def always_server_error_def)
  have more: "Suc 0 < maxAttempts" and last: "\<not> Suc 2 < maxAttempts"
    by (simp_all add: maxAttempts_def)
  note aborted = error_response_ends_or_retries [OF run_server_error i r,
      THEN conjunct1, rule_format, OF p]
  note retried = error_response_ends_or_retries [OF run_server_error_with_phrase i2 r2,
      THEN conjunct2, THEN conjunct1, rule_format, OF conjI, OF capacity_body_includes more]
  note exhausted = error_response_ends_or_retries [OF run_always_server_error i3 r3,
      THEN conjunct2, THEN conjunct2, rule_format, OF conjI, OF capacity_body_includes last]
  have "fst (execute (env_of (server_error_then capacity_body five_found)) density_input) ! 1
      = fst (execute (env_of (server_error_then capacity_body five_found)) density_input) ! 0"
    unfolding run_server_error_with_phrase fst_conv using retried by simp
  moreover have "length (fst (execute (env_of always_server_error) density_input)) = 3"
    unfolding run_always_server_error fst_conv using exhausted by simp
  moreover have "snd (execute (env_of always_server_error) density_input) = Inl NoData"
    unfolding run_always_server_error snd_conv by (rule refl)
  moreover have "execute (env_of (server_error_then ''Internal error'' five_found)) density_input
     = ([?rb], Inl (RequestFailed 500 ''Internal error''))"
    using aborted by (rule_tac run_server_error)
  moreover have "fetch (env_of (server_error_then ''Internal error'' five_found)) 0 ?rb
       = NotOk 500 ''Internal error''"
    using r by simp
  moreover have "fetch (env_of (server_error_then capacity_body five_found)) 0 ?rb
       = NotOk 500 capacity_body"
    using r2 by simp
  moreover have "fetch (env_of always_server_error) 2 ?rb = NotOk 500 capacity_body"
    using r3 by simp
  ultimately show ?thesis
    using p capacity_body_includes by (intro conjI)
qed

section \<open>The places list\<close>

text \<open>
  The places of a result are the identifiers of the place insights, entry by entry: the
  list has the length of the array, and an entry without identifier gives an undefined
  element. A \<^verbatim>\<open>null\<close> entry makes the mapping throw.
\<close>

lemma those_map_Some: "those (map Some entries) = Some entries"
  by (induction entries) simp_all

lemma map_places_entries:
  "map_places (Some (map Some entries)) = Inr (Some (map place entries))"
  by (simp add: map_places_def those_map_Some)

lemma map_places_null: "None \<in> set xs \<Longrightarrow> map_places (Some xs) = Inl TypeError"
proof -
  assume "None \<in> set xs"
  then have "those xs = None"
    by (induction xs) (auto split: option.splits)
  then show ?thesis
    by (simp add: map_places_def)
qed

lemma places_of_result:
  assumes "execute env ctx = (sent, Inr res)"
    and "fetch env (length sent - 1) (last sent) = Ok (Some d)"
  shows "map_places (placeInsights d) = Inr (places res)"
proof -
  from execute_success [OF assms(1)] assms(2) obtain mapped where
    "map_places (placeInsights d) = Inr mapped"
    and "res = build_result (arith env) ctx (enhancedFilter ctx) d mapped (clock env)"
    by auto
  then show ?thesis
    by (simp add: build_result_def)
qed

text \<open>
  Claim C8 on two responses that succeed at the first request. In the first one the second
  place insight is an object without identifier: the places list of the result has two
  elements, the second one undefined, where the claim has the single identifier and the
  output schema of the tool an array of strings. In the second one the second place
  insight is \<^verbatim>\<open>null\<close>: the invocation throws a \<^verbatim>\<open>TypeError\<close>, where the claim has a result.
\<close>

theorem entry_without_place_is_kept:
  "placeInsights two_insights
     = Some [Some \<lparr> place = Some ''places/A'' \<rparr>, Some \<lparr> place = None \<rparr>]
   \<and> snd (execute (env_of (capacity_then 0 two_insights)) density_input)
     = Inr (build_result exact_arith density_input (filter_of 1000 (only_included [''cafe'']))
              two_insights (Some [Some ''places/A'', None]) ''2025-01-01T00:00:00.000Z'')
   \<and> places (build_result exact_arith density_input
        (filter_of 1000 (only_included [''cafe''])) two_insights
        (Some [Some ''places/A'', None]) ''2025-01-01T00:00:00.000Z'')
     = Some [Some ''places/A'', None]
   \<and> places (build_result exact_arith density_input
        (filter_of 1000 (only_included [''cafe''])) two_insights
        (Some [Some ''places/A'', None]) ''2025-01-01T00:00:00.000Z'')
     \<noteq> Some [Some ''places/A'']
   \<and> placeInsights null_insight = Some [Some \<lparr> place = Some ''places/A'' \<rparr>, None]
   \<and> snd (execute (env_of (capacity_then 0 null_insight)) density_input) = Inl TypeError"
  apply (simp only: run_two_insights run_null_insight snd_conv)
  apply (simp add: build_result_def two_insights_def null_insight_def)
  done

section \<open>Empty output lists\<close>

text \<open>
  Claim C9, as stated, on a count of 0 in a radius of 1000 without business context: no
  risk and no strategic insight is pushed, and the two properties are undefined in the
  result instead of being empty lists.
\<close>

theorem empty_lists_are_undefined:
  "riskFactors (generateBusinessIntelligence exact_arith (Num 0) 1000 MARKET_DENSITY None)
     = None
   \<and> strategicInsights (generateBusinessIntelligence exact_arith (Num 0) 1000 MARKET_DENSITY
        None) = None
   \<and> riskFactors (generateBusinessIntelligence exact_arith (Num 0) 1000 MARKET_DENSITY None)
     \<noteq> Some []
   \<and> strategicInsights (generateBusinessIntelligence exact_arith (Num 0) 1000 MARKET_DENSITY
        None) \<noteq> Some []"
  by (simp add: generateBusinessIntelligence_def Let_def density_zero_1000 by_density_def
      by_industry_def by_analysisType_def unless_empty_def)

text \<open>
  Claim C9, amended: in every classification result the recommendations are present and
  not empty, and each of the risk factors, the opportunities and the strategic insights
  is either omitted or a list that is not empty: an empty list is never present.
\<close>

theorem empty_lists_are_omitted:
  "recommendations (generateBusinessIntelligence A c r intent bc) \<noteq> []
   \<and> riskFactors (generateBusinessIntelligence A c r intent bc) \<noteq> Some []
   \<and> opportunities (generateBusinessIntelligence A c r intent bc) \<noteq> Some []
   \<and> strategicInsights (generateBusinessIntelligence A c r intent bc) \<noteq> Some []"
  by (simp add: recommendations_not_empty omitted_lists)

theorem empty_lists_are_omitted_witness:
  "recommendations (generateBusinessIntelligence exact_arith (Num 20) 1000
        COMPETITOR_ANALYSIS None) \<noteq> []
   \<and> riskFactors (generateBusinessIntelligence exact_arith (Num 20) 1000
        COMPETITOR_ANALYSIS None) \<noteq> Some []
   \<and> opportunities (generateBusinessIntelligence exact_arith (Num 20) 1000
        COMPETITOR_ANALYSIS None) \<noteq> Some []
   \<and> strategicInsights (generateBusinessIntelligence exact_arith (Num 20) 1000
        COMPETITOR_ANALYSIS None) \<noteq> Some []"
  by (rule empty_lists_are_omitted)

section \<open>The custom analysis type\<close>

text \<open>
  Claim C10: in every invocation that returns a result, the analysis type \<^verbatim>\<open>'CUSTOM'\<close>
  gives a result without business intelligence and without search radius in the metadata,
  whatever the service returned; and a result has business intelligence only when the
  analysis type is present and is not \<^verbatim>\<open>'CUSTOM'\<close>.
\<close>

theorem custom_analysis_has_no_intelligence:
  assumes "execute env ctx = (sent, Inr res)"
  shows "(analysisType ctx = Some CUSTOM \<longrightarrow>
            businessIntelligence res = None \<and> searchRadius (metadata res) = None)
       \<and> (businessIntelligence res \<noteq> None \<longrightarrow>
            (\<exists>a. analysisType ctx = Some a \<and> a \<noteq> CUSTOM))"
proof -
  from execute_success [OF assms] obtain d mapped where
    res: "res = build_result (arith env) ctx (enhancedFilter ctx) d mapped (clock env)"
    by blast
  show ?thesis
    by (auto simp: res build_result_def wants_intelligence_def split: option.splits if_splits)
qed

theorem custom_analysis_has_no_intelligence_witness:
  "execute (env_of (capacity_then 0 five_found)) custom_input
     = ([\<lparr>request_insights = [''INSIGHT_COUNT''],
          request_filter = filter_of 1000 (only_included [''cafe''])\<rparr>],
        Inr (build_result exact_arith custom_input (filter_of 1000 (only_included [''cafe'']))
               five_found None ''2025-01-01T00:00:00.000Z''))
   \<and> analysisType custom_input = Some CUSTOM
   \<and> businessIntelligence (build_result exact_arith custom_input
        (filter_of 1000 (only_included [''cafe''])) five_found None
        ''2025-01-01T00:00:00.000Z'') = None
   \<and> searchRadius (metadata (build_result exact_arith custom_input
        (filter_of 1000 (only_included [''cafe''])) five_found None
        ''2025-01-01T00:00:00.000Z'')) = None"
proof -
  have custom: "analysisType custom_input = Some CUSTOM"
    by (simp add: custom_input_def input_of_def)
  from custom_analysis_has_no_intelligence [OF run_custom] run_custom custom
  show ?thesis
    by simp
qed

end
